theory Spec2Isabelle
  imports Complex_Main "HOL-Library.Word"
begin

section \<open>The purchase bundle of \<open>executeStandardPTOperations\<close>\<close>

text \<open>
  A shallow embedding of the TypeScript sources \<open>src/index.ts\<close>, \<open>src/schemas.ts\<close>,
  \<open>src/types/index.ts\<close>, \<open>src/helpers.ts\<close>, \<open>src/db/index.ts\<close> and
  \<open>src/db/schemas.ts\<close>.

  Conventions of the embedding.
  \<^item> A JavaScript \<open>number\<close> is a \<open>real\<close>. The code only compares numbers with \<open>0\<close>
    and with the enum values; \<open>NaN\<close> is refused by \<open>z.number()\<close> before any comparison.
  \<^item> A JavaScript string is a \<open>string\<close>; \<open>length\<close> counts its code units.
  \<^item> An optional property (\<open>x?: T\<close>) is a \<open>T option\<close>, \<open>None\<close> meaning that the
    property is absent. A \<open>string | null\<close> property is a \<open>string option\<close> too, with
    \<open>None\<close> for \<open>null\<close>.
  \<^item> Everything outside the functions is one explicit \<open>world\<close>: the random source
    behind \<open>Math.random\<close>, the clock behind \<open>new Date()\<close>, \<open>process.env\<close>, and the
    RDS data service with the log of the requests sent to it.
  \<^item> An \<open>async\<close> function is a function from the world to a result and the new
    world; a rejected promise or a thrown exception is the \<open>Inl\<close> of an \<open>error\<close>.
\<close>

subsection \<open>\<open>src/types/index.ts\<close>\<close>

type_synonym number = real

definition FedNow :: number where "FedNow = 0"
definition Card :: number where "Card = 1"

definition COMPLETE :: number where "COMPLETE = 4"
definition PENDING :: number where "PENDING = 5"

record UserPurchaseInformation =
  payerId :: string
  payeeId :: string
  developerId :: string
  amount :: number
  interactionTypeId :: number
  paymentMethod :: number
  payerAccountId :: "string option"
  payeeAccountId :: "string option"

record PromotionInformation =
  promoAmount :: "number option"

record IdObject =
  primaryPaymentID :: "string option"
  customerLedgerEntryID :: "string option"
  pursTransactionID :: "string option"
  primaryFedNowPaymentID :: "string option"
  promotionLedgerEntryID :: "string option"

record ExecuteStandardPTOperationsParams =
  userPurchaseInformation :: UserPurchaseInformation
  promotionInformation :: PromotionInformation
  sqlTransactionId :: string

subsection \<open>\<open>src/db/types.ts\<close>\<close>

text \<open>
  The parameter objects of the five writers. Their property names are the
  source's, prefixed by the writer, since a record field is a constant of the theory.
\<close>

record InsertPaymentParams =
  pay_payerId :: string
  pay_payeeId :: string
  pay_developerId :: string
  pay_amount :: number
  pay_interactionTypeId :: number
  pay_paymentMethod :: number
  pay_sqlTransactionId :: string

record InsertFedNowPaymentParams =
  fed_paymentId :: string
  fed_payerAccountId :: string
  fed_payeeAccountId :: string
  fed_sqlTransactionId :: string

record InsertLedgerEntryParams =
  led_payerId :: string
  led_payeeId :: string
  led_developerId :: string
  led_amount :: number
  led_interactionTypeId :: number
  led_sqlTransactionId :: string

record InsertPromotionLedgerEntryParams =
  promo_developerId :: string
  promo_payeeId :: string
  promo_payerId :: string
  promo_promoAmount :: number
  promo_interactionTypeId :: number
  promo_sqlTransactionId :: string

record InsertTransactionRecordParams =
  rec_ledgerEntries :: "string list"
  rec_sqlTransactionId :: string

subsection \<open>The validation library, as the schemas use it\<close>

text \<open>
  An issue of a \<open>ZodError\<close>: its code and the path of the offending property. A
  schema is a function from the path it is reached by and the value to the list of
  its issues, in the order the library reports them (the order of the keys of the
  schema object).
\<close>

datatype issue_code =
  too_small_string nat
  | too_big_string nat
  | too_small_number number
  | too_small_array nat
  | invalid_enum_value number

datatype issue = Issue (code: issue_code) (path: "string list")

type_synonym 'a schema = "string list \<Rightarrow> 'a \<Rightarrow> issue list"

text \<open>\<open>z.string().length(n)\<close>: too long is \<open>too_big\<close>, too short is \<open>too_small\<close>.\<close>

definition z_string_length :: "nat \<Rightarrow> string schema" where
  "z_string_length n p s =
     (if length s > n then [Issue (too_big_string n) p]
      else if length s < n then [Issue (too_small_string n) p]
      else [])"

text \<open>\<open>z.string()\<close> and \<open>z.number()\<close>: every string and every number passes.\<close>

definition z_string :: "string schema" where
  "z_string p s = []"

definition z_number :: "number schema" where
  "z_number p x = []"

text \<open>\<open>z.number().nonnegative()\<close>.\<close>

definition z_number_nonnegative :: "number schema" where
  "z_number_nonnegative p x = (if x < 0 then [Issue (too_small_number 0) p] else [])"

text \<open>\<open>z.nativeEnum(PaymentMethod)\<close>: the values of the enum are \<open>0\<close> and \<open>1\<close>.\<close>

definition z_nativeEnum_PaymentMethod :: "number schema" where
  "z_nativeEnum_PaymentMethod p x =
     (if x = FedNow \<or> x = Card then [] else [Issue (invalid_enum_value x) p])"

text \<open>\<open>.optional()\<close>: an absent property passes.\<close>

definition z_optional :: "'a schema \<Rightarrow> 'a option schema" where
  "z_optional s p v = (case v of None \<Rightarrow> [] | Some x \<Rightarrow> s p x)"

text \<open>\<open>z.array(z.string()).nonempty()\<close>.\<close>

definition z_array_string_nonempty :: "string list schema" where
  "z_array_string_nonempty p xs = (if length xs < 1 then [Issue (too_small_array 1) p] else [])"

subsection \<open>\<open>src/schemas.ts\<close>\<close>

definition UserPurchaseInformationSchema :: "UserPurchaseInformation schema" where
  "UserPurchaseInformationSchema p u =
     z_string_length 32 (p @ [''payeeId'']) (payeeId u)
     @ z_string_length 32 (p @ [''payerId'']) (payerId u)
     @ z_optional (z_string_length 32) (p @ [''payerAccountId'']) (payerAccountId u)
     @ z_optional (z_string_length 32) (p @ [''payeeAccountId'']) (payeeAccountId u)
     @ z_string_length 32 (p @ [''developerId'']) (developerId u)
     @ z_number_nonnegative (p @ [''amount'']) (amount u)
     @ z_number (p @ [''interactionTypeId'']) (interactionTypeId u)
     @ z_nativeEnum_PaymentMethod (p @ [''paymentMethod'']) (paymentMethod u)"

definition PromotionInformationSchema :: "PromotionInformation schema" where
  "PromotionInformationSchema p i =
     z_optional z_number_nonnegative (p @ [''promoAmount'']) (promoAmount i)"

definition ExecuteStandardPTOperationsParamsSchema ::
  "ExecuteStandardPTOperationsParams schema" where
  "ExecuteStandardPTOperationsParamsSchema p params =
     UserPurchaseInformationSchema (p @ [''userPurchaseInformation''])
       (userPurchaseInformation params)
     @ PromotionInformationSchema (p @ [''promotionInformation''])
         (promotionInformation params)
     @ z_string_length 32 (p @ [''sqlTransactionId'']) (sqlTransactionId params)"

subsection \<open>\<open>src/db/schemas.ts\<close>\<close>

definition InsertPaymentParamsSchema :: "InsertPaymentParams schema" where
  "InsertPaymentParamsSchema p x =
     z_string_length 32 (p @ [''payerId'']) (pay_payerId x)
     @ z_string_length 32 (p @ [''payeeId'']) (pay_payeeId x)
     @ z_string_length 32 (p @ [''developerId'']) (pay_developerId x)
     @ z_number_nonnegative (p @ [''amount'']) (pay_amount x)
     @ z_number (p @ [''interactionTypeId'']) (pay_interactionTypeId x)
     @ z_nativeEnum_PaymentMethod (p @ [''paymentMethod'']) (pay_paymentMethod x)
     @ z_string_length 32 (p @ [''sqlTransactionId'']) (pay_sqlTransactionId x)"

definition InsertFedNowPaymentParamsSchema :: "InsertFedNowPaymentParams schema" where
  "InsertFedNowPaymentParamsSchema p x =
     z_string_length 32 (p @ [''paymentId'']) (fed_paymentId x)
     @ z_string_length 32 (p @ [''payerAccountId'']) (fed_payerAccountId x)
     @ z_string_length 32 (p @ [''payeeAccountId'']) (fed_payeeAccountId x)
     @ z_string_length 32 (p @ [''sqlTransactionId'']) (fed_sqlTransactionId x)"

definition InsertLedgerEntryParamsSchema :: "InsertLedgerEntryParams schema" where
  "InsertLedgerEntryParamsSchema p x =
     z_string_length 32 (p @ [''payerId'']) (led_payerId x)
     @ z_string_length 32 (p @ [''payeeId'']) (led_payeeId x)
     @ z_string_length 32 (p @ [''developerId'']) (led_developerId x)
     @ z_number (p @ [''amount'']) (led_amount x)
     @ z_number (p @ [''interactionTypeId'']) (led_interactionTypeId x)
     @ z_string (p @ [''sqlTransactionId'']) (led_sqlTransactionId x)"

definition InsertPromotionLedgerEntryParamsSchema ::
  "InsertPromotionLedgerEntryParams schema" where
  "InsertPromotionLedgerEntryParamsSchema p x =
     z_string_length 32 (p @ [''developerId'']) (promo_developerId x)
     @ z_string_length 32 (p @ [''payerId'']) (promo_payerId x)
     @ z_string_length 32 (p @ [''payeeId'']) (promo_payeeId x)
     @ z_number_nonnegative (p @ [''promoAmount'']) (promo_promoAmount x)
     @ z_number (p @ [''interactionTypeId'']) (promo_interactionTypeId x)
     @ z_string_length 32 (p @ [''sqlTransactionId'']) (promo_sqlTransactionId x)"

definition InsertTransactionRecordParamsSchema :: "InsertTransactionRecordParams schema" where
  "InsertTransactionRecordParamsSchema p x =
     z_array_string_nonempty (p @ [''ledgerEntries'']) (rec_ledgerEntries x)
     @ z_string_length 32 (p @ [''sqlTransactionId'']) (rec_sqlTransactionId x)"

subsection \<open>The world outside the functions\<close>

text \<open>
  A \<open>Date\<close> is given by its UTC components, as \<open>toISOString\<close> reads them
  (\<open>utcMonth\<close> counts from \<open>0\<close>, as \<open>getUTCMonth\<close> does).
\<close>

record Date =
  utcFullYear :: int
  utcMonth :: nat
  utcDate :: nat
  utcHours :: nat
  utcMinutes :: nat
  utcSeconds :: nat
  utcMilliseconds :: nat

text \<open>A byte buffer, and a field of an RDS Data API parameter with its optional keys.\<close>

type_synonym Buffer = "8 word list"

record Field =
  blobValue :: "Buffer option"
  doubleValue :: "number option"
  stringValue :: "string option"
  isNull :: "bool option"

type_synonym SqlParameter = "string \<times> Field"

record ExecuteStatementRequest =
  database :: string
  secretArn :: string
  resourceArn :: string
  transactionId :: string
  sql :: string
  parameters :: "SqlParameter list"

record BatchExecuteStatementRequest =
  batch_database :: string
  batch_secretArn :: string
  batch_resourceArn :: string
  batch_transactionId :: string
  batch_sql :: string
  parameterSets :: "SqlParameter list list"

datatype rds_call =
  executeStatement ExecuteStatementRequest
  | batchExecuteStatement BatchExecuteStatementRequest

text \<open>
  The world: \<open>math_random\<close> is the sequence of the values
  \<open>Math.floor(Math.random() * 16)\<close> (one of sixteen values each) and \<open>drawn\<close>
  counts how many were consumed; \<open>date_now\<close> is the sequence of the readings of
  \<open>new Date()\<close> and \<open>reads\<close> counts them; \<open>process_env\<close> is the environment;
  \<open>rds_log\<close> is the list of the calls made to the data service, oldest first, and
  \<open>rds_response\<close> is the service: given the log up to and including a call, the
  error it raises on that call, if any.
\<close>

record world =
  math_random :: "nat \<Rightarrow> 4 word"
  drawn :: nat
  date_now :: "nat \<Rightarrow> Date"
  reads :: nat
  process_env :: "string \<Rightarrow> string option"
  rds_response :: "rds_call list \<Rightarrow> string option"
  rds_log :: "rds_call list"

datatype error =
  ZodError "issue list"
  | Error string
  | StoreError string

type_synonym 'a io = "world \<Rightarrow> (error + 'a) \<times> world"

definition resolve :: "'a \<Rightarrow> 'a io" where
  "resolve x w = (Inr x, w)"

definition reject :: "error \<Rightarrow> 'a io" where
  "reject e w = (Inl e, w)"

text \<open>Sequencing: \<open>await\<close>, and a statement after a statement that may throw.\<close>

definition andThen :: "'a io \<Rightarrow> ('a \<Rightarrow> 'b io) \<Rightarrow> 'b io" where
  "andThen m f w = (case m w of (Inl e, w') \<Rightarrow> (Inl e, w') | (Inr x, w') \<Rightarrow> f x w')"

text \<open>\<open>schema.parse(x)\<close>: the value, or a \<open>ZodError\<close> with all the issues.\<close>

definition parse :: "'a schema \<Rightarrow> 'a \<Rightarrow> 'a io" where
  "parse s x = (if s [] x = [] then resolve x else reject (ZodError (s [] x)))"

text \<open>\<open>new Date()\<close> takes the next reading of the clock.\<close>

definition new_Date :: "Date io" where
  "new_Date w = (Inr (date_now w (reads w)), w\<lparr>reads := Suc (reads w)\<rparr>)"

text \<open>
  \<open>RDS.executeStatement(r).promise()\<close> and \<open>RDS.batchExecuteStatement(r).promise()\<close>:
  the call is logged, and the service answers or raises its error.
\<close>

definition rds_send :: "rds_call \<Rightarrow> unit io" where
  "rds_send c w =
     (let w' = w\<lparr>rds_log := rds_log w @ [c]\<rparr>
      in case rds_response w (rds_log w') of
           Some e \<Rightarrow> (Inl (StoreError e), w')
         | None \<Rightarrow> (Inr (), w'))"

definition RDS_executeStatement :: "ExecuteStatementRequest \<Rightarrow> unit io" where
  "RDS_executeStatement r = rds_send (executeStatement r)"

definition RDS_batchExecuteStatement :: "BatchExecuteStatementRequest \<Rightarrow> unit io" where
  "RDS_batchExecuteStatement r = rds_send (batchExecuteStatement r)"

subsection \<open>Library functions on strings and buffers\<close>

text \<open>\<open>Buffer.from(s, 'hex')\<close>: pairs of hexadecimal digits, up to the first pair that is not one.\<close>

definition hexval :: "char \<Rightarrow> nat option" where
  "hexval c =
     (if c \<in> set ''0123456789'' then Some (of_char c - 48)
      else if c \<in> set ''abcdef'' then Some (of_char c - 87)
      else if c \<in> set ''ABCDEF'' then Some (of_char c - 55)
      else None)"

fun Buffer_from_hex :: "string \<Rightarrow> Buffer" where
  "Buffer_from_hex (a # b # rest) =
     (case (hexval a, hexval b) of
        (Some x, Some y) \<Rightarrow> of_nat (16 * x + y) # Buffer_from_hex rest
      | _ \<Rightarrow> [])"
| "Buffer_from_hex _ = []"

text \<open>\<open>d.toString(16)\<close> for one of the sixteen values.\<close>

definition toString16 :: "4 word \<Rightarrow> string" where
  "toString16 d = [''0123456789abcdef'' ! unat d]"

text \<open>Decimal digits, padded with zeros to two, three, four and six places.\<close>

definition digit :: "nat \<Rightarrow> char" where
  "digit n = ''0123456789'' ! (n mod 10)"

definition pad2 :: "nat \<Rightarrow> string" where
  "pad2 n = [digit (n div 10), digit n]"

definition pad3 :: "nat \<Rightarrow> string" where
  "pad3 n = [digit (n div 100), digit (n div 10), digit n]"

definition pad4 :: "nat \<Rightarrow> string" where
  "pad4 n = [digit (n div 1000), digit (n div 100), digit (n div 10), digit n]"

definition pad6 :: "nat \<Rightarrow> string" where
  "pad6 n = [digit (n div 100000), digit (n div 10000), digit (n div 1000),
             digit (n div 100), digit (n div 10), digit n]"

text \<open>
  \<open>Date.prototype.toISOString\<close>: \<open>YYYY-MM-DDTHH:mm:ss.sssZ\<close>, and a sign with six
  digits for a year outside \<open>0 .. 9999\<close>.
\<close>

definition isoYear :: "int \<Rightarrow> string" where
  "isoYear y =
     (if 0 \<le> y \<and> y \<le> 9999 then pad4 (nat y)
      else if y < 0 then ''-'' @ pad6 (nat (- y))
      else ''+'' @ pad6 (nat y))"

definition toISOString :: "Date \<Rightarrow> string" where
  "toISOString d =
     isoYear (utcFullYear d) @ ''-'' @ pad2 (utcMonth d + 1) @ ''-'' @ pad2 (utcDate d)
     @ ''T'' @ pad2 (utcHours d) @ '':'' @ pad2 (utcMinutes d) @ '':'' @ pad2 (utcSeconds d)
     @ ''.'' @ pad3 (utcMilliseconds d) @ ''Z''"

text \<open>\<open>s.slice(0, n)\<close>, and \<open>s.replace(a, b)\<close> for one-character strings: the first \<open>a\<close> only.\<close>

definition slice0 :: "nat \<Rightarrow> string \<Rightarrow> string" where
  "slice0 n s = take n s"

fun replace :: "char \<Rightarrow> char \<Rightarrow> string \<Rightarrow> string" where
  "replace a b [] = []"
| "replace a b (c # cs) = (if c = a then b # cs else c # replace a b cs)"

subsection \<open>\<open>src/helpers.ts\<close>\<close>

definition getEnvVariable :: "string \<Rightarrow> string io" where
  "getEnvVariable name w =
     (case process_env w name of
        None \<Rightarrow> (Inl (Error (''Environment variable '' @ name @ '' not set'')), w)
      | Some v \<Rightarrow> (Inr v, w))"

text \<open>The loop of \<open>genId\<close>: \<open>n\<close> rounds are left and \<open>result\<close> is the string so far.\<close>

fun genId_loop :: "nat \<Rightarrow> string \<Rightarrow> world \<Rightarrow> string \<times> world" where
  "genId_loop 0 result w = (result, w)"
| "genId_loop (Suc n) result w =
     (let randomHexDigit = toString16 (math_random w (drawn w))
      in genId_loop n (result @ randomHexDigit) (w\<lparr>drawn := Suc (drawn w)\<rparr>))"

definition genId :: "nat \<Rightarrow> world \<Rightarrow> string \<times> world" where
  "genId len w = genId_loop len [] w"

text \<open>\<open>formatDate\<close> has a parameter \<open>date\<close> and formats a \<open>new Date()\<close>.\<close>

definition formatDate :: "Date \<Rightarrow> string io" where
  "formatDate date =
     andThen new_Date (\<lambda>d. resolve (replace CHR ''T'' CHR '' '' (slice0 19 (toISOString d))))"

subsection \<open>\<open>src/db/index.ts\<close>\<close>

text \<open>The field objects the writers build: \<open>{ blobValue: Buffer.from(s, 'hex') }\<close>,
  \<open>{ doubleValue: x }\<close>, \<open>{ stringValue: s }\<close> and \<open>{ stringValue: s, isNull: b }\<close>.\<close>

definition blobField :: "string \<Rightarrow> Field" where
  "blobField s =
     \<lparr>blobValue = Some (Buffer_from_hex s), doubleValue = None, stringValue = None,
      isNull = None\<rparr>"

definition doubleField :: "number \<Rightarrow> Field" where
  "doubleField x =
     \<lparr>blobValue = None, doubleValue = Some x, stringValue = None, isNull = None\<rparr>"

definition stringField :: "string \<Rightarrow> Field" where
  "stringField s =
     \<lparr>blobValue = None, doubleValue = None, stringValue = Some s, isNull = None\<rparr>"

definition nullableStringField :: "string option \<Rightarrow> bool \<Rightarrow> Field" where
  "nullableStringField s b =
     \<lparr>blobValue = None, doubleValue = None, stringValue = s, isNull = Some b\<rparr>"

text \<open>
  The dependency \<open>genId\<close> of the factory is any function of this type; the
  functions below take it as their first argument.
\<close>

type_synonym genIdType = "nat \<Rightarrow> world \<Rightarrow> string \<times> world"

definition callGenId :: "genIdType \<Rightarrow> nat \<Rightarrow> string io" where
  "callGenId g n w = (case g n w of (s, w') \<Rightarrow> (Inr s, w'))"

definition insertPayment_db :: "genIdType \<Rightarrow> InsertPaymentParams \<Rightarrow> string io" where
  "insertPayment_db g params =
     andThen (parse InsertPaymentParamsSchema params) (\<lambda>_.
     andThen (parse InsertPaymentParamsSchema params) (\<lambda>parsed.
     andThen (callGenId g 32) (\<lambda>paymentId.
     andThen (getEnvVariable ''DATABASE'') (\<lambda>db.
     andThen (getEnvVariable ''SECRET_ARN'') (\<lambda>secret.
     andThen (getEnvVariable ''CLUSTER_ARN'') (\<lambda>cluster.
     andThen
       (if pay_paymentMethod parsed = FedNow \<and> pay_amount parsed > 0 then resolve None
        else andThen new_Date (\<lambda>d. andThen (formatDate d) (\<lambda>s. resolve (Some s))))
       (\<lambda>datePaid.
     andThen
       (RDS_executeStatement
          \<lparr>database = db, secretArn = secret, resourceArn = cluster,
           transactionId = pay_sqlTransactionId parsed, sql = ''INSERT ...'',
           parameters =
             [(''paymentId'', blobField paymentId),
              (''payerId'', blobField (pay_payerId parsed)),
              (''payeeId'', blobField (pay_payeeId parsed)),
              (''developerId'', blobField (pay_developerId parsed)),
              (''paymentAmount'', doubleField (pay_amount parsed)),
              (''interactionTypeId'', doubleField (pay_interactionTypeId parsed)),
              (''paymentMethod'', doubleField (pay_paymentMethod parsed)),
              (''paymentStatus'',
                 doubleField
                   (if pay_paymentMethod parsed \<noteq> FedNow \<or> pay_amount parsed = 0
                    then COMPLETE else PENDING)),
              (''datePaid'',
                 nullableStringField datePaid
                   (pay_paymentMethod parsed = FedNow \<and> pay_amount parsed > 0))]\<rparr>)
       (\<lambda>_. resolve paymentId))))))))"

definition insertFedNowPayment_db ::
  "genIdType \<Rightarrow> InsertFedNowPaymentParams \<Rightarrow> string io" where
  "insertFedNowPayment_db g params =
     andThen (parse InsertFedNowPaymentParamsSchema params) (\<lambda>_.
     andThen (callGenId g 32) (\<lambda>fedNowPaymentId.
     andThen (getEnvVariable ''DATABASE'') (\<lambda>db.
     andThen (getEnvVariable ''SECRET_ARN'') (\<lambda>secret.
     andThen (getEnvVariable ''CLUSTER_ARN'') (\<lambda>cluster.
     andThen
       (RDS_executeStatement
          \<lparr>database = db, secretArn = secret, resourceArn = cluster,
           transactionId = fed_sqlTransactionId params, sql = ''INSERT ...'',
           parameters =
             [(''fedNowPaymentId'', blobField fedNowPaymentId),
              (''paymentId'', blobField (fed_paymentId params)),
              (''payerAccountId'', stringField (fed_payerAccountId params)),
              (''payeeAccountId'', stringField (fed_payeeAccountId params))]\<rparr>)
       (\<lambda>_. resolve fedNowPaymentId))))))"

definition insertLedgerEntry_db ::
  "genIdType \<Rightarrow> InsertLedgerEntryParams \<Rightarrow> string io" where
  "insertLedgerEntry_db g params =
     andThen (parse InsertLedgerEntryParamsSchema params) (\<lambda>_.
     andThen (callGenId g 32) (\<lambda>ledgerId.
     andThen (getEnvVariable ''DATABASE'') (\<lambda>db.
     andThen (getEnvVariable ''SECRET_ARN'') (\<lambda>secret.
     andThen (getEnvVariable ''CLUSTER_ARN'') (\<lambda>cluster.
     andThen
       (RDS_executeStatement
          \<lparr>database = db, secretArn = secret, resourceArn = cluster,
           transactionId = led_sqlTransactionId params, sql = ''INSERT ...'',
           parameters =
             [(''ledgerId'', blobField ledgerId),
              (''payerId'', blobField (led_payerId params)),
              (''payeeId'', blobField (led_payeeId params)),
              (''amount'', doubleField (led_amount params)),
              (''interactionTypeId'', doubleField (led_interactionTypeId params)),
              (''developerId'', blobField (led_developerId params))]\<rparr>)
       (\<lambda>_. resolve ledgerId))))))"

definition insertPromotionLedgerEntry_db ::
  "genIdType \<Rightarrow> InsertPromotionLedgerEntryParams \<Rightarrow> string io" where
  "insertPromotionLedgerEntry_db g params =
     andThen (parse InsertPromotionLedgerEntryParamsSchema params) (\<lambda>_.
     andThen (callGenId g 32) (\<lambda>ledgerId.
     andThen (getEnvVariable ''DATABASE'') (\<lambda>db.
     andThen (getEnvVariable ''SECRET_ARN'') (\<lambda>secret.
     andThen (getEnvVariable ''CLUSTER_ARN'') (\<lambda>cluster.
     andThen
       (RDS_executeStatement
          \<lparr>database = db, secretArn = secret, resourceArn = cluster,
           transactionId = promo_sqlTransactionId params, sql = ''INSERT ...'',
           parameters =
             [(''ledgerId'', blobField ledgerId),
              (''payerId'', blobField (promo_payerId params)),
              (''payeeId'', blobField (promo_payeeId params)),
              (''developerId'', blobField (promo_developerId params)),
              (''amount'', doubleField (promo_promoAmount params)),
              (''interactionTypeId'', doubleField (promo_interactionTypeId params))]\<rparr>)
       (\<lambda>_. resolve ledgerId))))))"

definition insertTransactionRecord_db ::
  "genIdType \<Rightarrow> InsertTransactionRecordParams \<Rightarrow> string io" where
  "insertTransactionRecord_db g params =
     andThen (parse InsertTransactionRecordParamsSchema params) (\<lambda>_.
     andThen (callGenId g 32) (\<lambda>pursTransactionId.
     andThen (getEnvVariable ''DATABASE'') (\<lambda>db.
     andThen (getEnvVariable ''SECRET_ARN'') (\<lambda>secret.
     andThen (getEnvVariable ''CLUSTER_ARN'') (\<lambda>cluster.
     andThen
       (RDS_batchExecuteStatement
          \<lparr>batch_database = db, batch_secretArn = secret, batch_resourceArn = cluster,
           batch_transactionId = rec_sqlTransactionId params, batch_sql = ''INSERT ...'',
           parameterSets =
             map (\<lambda>ledgerEntry.
                    [(''transactionId'', blobField pursTransactionId),
                     (''ledgerId'', blobField ledgerEntry)])
                 (rec_ledgerEntries params)\<rparr>)
       (\<lambda>_. resolve pursTransactionId))))))"

text \<open>The interface \<open>DB\<close> of \<open>src/db/types.ts\<close> and the factory that builds it.\<close>

record DB =
  insertPayment :: "InsertPaymentParams \<Rightarrow> string io"
  insertFedNowPayment :: "InsertFedNowPaymentParams \<Rightarrow> string io"
  insertLedgerEntry :: "InsertLedgerEntryParams \<Rightarrow> string io"
  insertPromotionLedgerEntry :: "InsertPromotionLedgerEntryParams \<Rightarrow> string io"
  insertTransactionRecord :: "InsertTransactionRecordParams \<Rightarrow> string io"

definition createDatabaseOperations :: "genIdType \<Rightarrow> DB" where
  "createDatabaseOperations g =
     \<lparr>insertPayment = insertPayment_db g,
      insertFedNowPayment = insertFedNowPayment_db g,
      insertLedgerEntry = insertLedgerEntry_db g,
      insertPromotionLedgerEntry = insertPromotionLedgerEntry_db g,
      insertTransactionRecord = insertTransactionRecord_db g\<rparr>"

subsection \<open>\<open>src/index.ts\<close>\<close>

text \<open>
  The two conditional steps, each returning the \<open>idObj\<close> (and the list
  \<open>ledgerEntries\<close>) as the step leaves them.
\<close>

definition fedNowStep ::
  "DB \<Rightarrow> ExecuteStandardPTOperationsParams \<Rightarrow> string \<Rightarrow> IdObject \<Rightarrow> IdObject io" where
  "fedNowStep db params paymentId idObj =
     (let u = userPurchaseInformation params in
      if paymentMethod u = FedNow \<and> amount u > 0
         \<and> payerAccountId u \<noteq> None \<and> payeeAccountId u \<noteq> None
      then
        andThen
          (insertFedNowPayment db
             \<lparr>fed_paymentId = paymentId,
              fed_payerAccountId = the (payerAccountId u),
              fed_payeeAccountId = the (payeeAccountId u),
              fed_sqlTransactionId = sqlTransactionId params\<rparr>)
          (\<lambda>fedNowPaymentId.
             resolve (idObj\<lparr>primaryFedNowPaymentID := Some fedNowPaymentId\<rparr>))
      else resolve idObj)"

definition promotionStep ::
  "DB \<Rightarrow> ExecuteStandardPTOperationsParams \<Rightarrow> string list \<Rightarrow> IdObject
     \<Rightarrow> (string list \<times> IdObject) io" where
  "promotionStep db params ledgerEntries idObj =
     (let u = userPurchaseInformation params in
      case promoAmount (promotionInformation params) of
        None \<Rightarrow> resolve (ledgerEntries, idObj)
      | Some promo \<Rightarrow>
          if promo > 0 then
            andThen
              (insertPromotionLedgerEntry db
                 \<lparr>promo_developerId = developerId u,
                  promo_payeeId = payeeId u,
                  promo_payerId = payerId u,
                  promo_promoAmount = promo,
                  promo_interactionTypeId = interactionTypeId u,
                  promo_sqlTransactionId = sqlTransactionId params\<rparr>)
              (\<lambda>promotionLedgerId.
                 resolve (ledgerEntries @ [promotionLedgerId],
                          idObj\<lparr>promotionLedgerEntryID := Some promotionLedgerId\<rparr>))
          else resolve (ledgerEntries, idObj))"

definition executeStandardPTOperations ::
  "DB \<Rightarrow> ExecuteStandardPTOperationsParams \<Rightarrow> IdObject io" where
  "executeStandardPTOperations db params =
     andThen (parse ExecuteStandardPTOperationsParamsSchema params) (\<lambda>_.
     (let u = userPurchaseInformation params;
          ledgerEntries = [];
          idObj = \<lparr>primaryPaymentID = None, customerLedgerEntryID = None,
                   pursTransactionID = None, primaryFedNowPaymentID = None,
                   promotionLedgerEntryID = None\<rparr>
      in
      andThen
        (insertPayment db
           \<lparr>pay_payerId = payerId u, pay_payeeId = payeeId u,
            pay_developerId = developerId u, pay_amount = amount u,
            pay_interactionTypeId = interactionTypeId u,
            pay_paymentMethod = paymentMethod u,
            pay_sqlTransactionId = sqlTransactionId params\<rparr>)
        (\<lambda>paymentId.
      andThen (fedNowStep db params paymentId (idObj\<lparr>primaryPaymentID := Some paymentId\<rparr>))
        (\<lambda>idObj.
      andThen
        (insertLedgerEntry db
           \<lparr>led_payerId = payerId u, led_payeeId = payeeId u,
            led_developerId = developerId u, led_amount = amount u,
            led_interactionTypeId = interactionTypeId u,
            led_sqlTransactionId = sqlTransactionId params\<rparr>)
        (\<lambda>ledgerId.
      andThen
        (promotionStep db params (ledgerEntries @ [ledgerId])
           (idObj\<lparr>customerLedgerEntryID := Some ledgerId\<rparr>))
        (\<lambda>(ledgerEntries, idObj).
      andThen
        (insertTransactionRecord db
           \<lparr>rec_ledgerEntries = ledgerEntries,
            rec_sqlTransactionId = sqlTransactionId params\<rparr>)
        (\<lambda>pursTransactionId.
      resolve (idObj\<lparr>pursTransactionID := Some pursTransactionId\<rparr>))))))))"

section \<open>Auxiliary definitions\<close>

text \<open>
  Names for what the theorems speak of: the parameter objects the orchestrator
  passes to the writers, its two guards, the statements the writers send, the ids by
  their place in the random source, what a run adds to the log, and the inputs of the
  examples.
\<close>

text \<open>
  The string of \<open>n\<close> hexadecimal digits that \<open>genId\<close> builds
  from the random source \<open>rnd\<close> when \<open>k\<close> values have been
  drawn before.
\<close>

definition hexId :: "(nat \<Rightarrow> 4 word) \<Rightarrow> nat \<Rightarrow> nat \<Rightarrow> string" where
  "hexId rnd k n = concat (map (\<lambda>i. toString16 (rnd (k + i))) [0..<n])"

text \<open>
  The parameter objects the orchestrator builds for the writers, from its input (and
  the payment id, for the FedNow writer).
\<close>

definition paymentParamsOf :: "ExecuteStandardPTOperationsParams \<Rightarrow> InsertPaymentParams" where
  "paymentParamsOf p =
     (let u = userPurchaseInformation p in
      \<lparr>pay_payerId = payerId u, pay_payeeId = payeeId u,
       pay_developerId = developerId u, pay_amount = amount u,
       pay_interactionTypeId = interactionTypeId u,
       pay_paymentMethod = paymentMethod u,
       pay_sqlTransactionId = sqlTransactionId p\<rparr>)"

definition fedNowParamsOf ::
  "ExecuteStandardPTOperationsParams \<Rightarrow> string \<Rightarrow> InsertFedNowPaymentParams" where
  "fedNowParamsOf p paymentId =
     (let u = userPurchaseInformation p in
      \<lparr>fed_paymentId = paymentId,
       fed_payerAccountId = the (payerAccountId u),
       fed_payeeAccountId = the (payeeAccountId u),
       fed_sqlTransactionId = sqlTransactionId p\<rparr>)"

definition ledgerParamsOf :: "ExecuteStandardPTOperationsParams \<Rightarrow> InsertLedgerEntryParams" where
  "ledgerParamsOf p =
     (let u = userPurchaseInformation p in
      \<lparr>led_payerId = payerId u, led_payeeId = payeeId u,
       led_developerId = developerId u, led_amount = amount u,
       led_interactionTypeId = interactionTypeId u,
       led_sqlTransactionId = sqlTransactionId p\<rparr>)"

definition promotionParamsOf ::
  "ExecuteStandardPTOperationsParams \<Rightarrow> InsertPromotionLedgerEntryParams" where
  "promotionParamsOf p =
     (let u = userPurchaseInformation p in
      \<lparr>promo_developerId = developerId u,
       promo_payeeId = payeeId u,
       promo_payerId = payerId u,
       promo_promoAmount = the (promoAmount (promotionInformation p)),
       promo_interactionTypeId = interactionTypeId u,
       promo_sqlTransactionId = sqlTransactionId p\<rparr>)"

text \<open>
  The two conditions of the orchestrator: the one of the FedNow payment and the one of
  the promotion ledger entry.
\<close>

definition fedNowGuard :: "ExecuteStandardPTOperationsParams \<Rightarrow> bool" where
  "fedNowGuard p =
     (let u = userPurchaseInformation p in
      paymentMethod u = FedNow \<and> amount u > 0
      \<and> payerAccountId u \<noteq> None \<and> payeeAccountId u \<noteq> None)"

definition promotionGuard :: "ExecuteStandardPTOperationsParams \<Rightarrow> bool" where
  "promotionGuard p =
     (case promoAmount (promotionInformation p) of None \<Rightarrow> False | Some a \<Rightarrow> a > 0)"

text \<open>
  The \<open>stringValue\<close> of \<open>datePaid\<close> that
  \<open>insertPayment\<close> computes in the world \<open>w\<close>: none for a
  pending payment, and otherwise the rendering of the second clock reading from
  \<open>w\<close> on (the first one is the argument of \<open>formatDate\<close>).
\<close>

definition paymentDatePaid :: "InsertPaymentParams \<Rightarrow> world \<Rightarrow> string option" where
  "paymentDatePaid params w =
     (if pay_paymentMethod params = FedNow \<and> pay_amount params > 0 then None
      else Some (replace CHR ''T'' CHR '' ''
                   (slice0 19 (toISOString (date_now w (Suc (reads w)))))))"

text \<open>
  The calls the five writers make, given the environment, the parameters and the
  generated id; each is the request object of the source.
\<close>

definition paymentCall ::
  "(string \<Rightarrow> string option) \<Rightarrow> InsertPaymentParams \<Rightarrow> string \<Rightarrow> string option \<Rightarrow> rds_call" where
  "paymentCall env params paymentId datePaid =
     executeStatement
       \<lparr>database = the (env ''DATABASE''), secretArn = the (env ''SECRET_ARN''),
        resourceArn = the (env ''CLUSTER_ARN''),
        transactionId = pay_sqlTransactionId params, sql = ''INSERT ...'',
        parameters =
          [(''paymentId'', blobField paymentId),
           (''payerId'', blobField (pay_payerId params)),
           (''payeeId'', blobField (pay_payeeId params)),
           (''developerId'', blobField (pay_developerId params)),
           (''paymentAmount'', doubleField (pay_amount params)),
           (''interactionTypeId'', doubleField (pay_interactionTypeId params)),
           (''paymentMethod'', doubleField (pay_paymentMethod params)),
           (''paymentStatus'',
              doubleField
                (if pay_paymentMethod params \<noteq> FedNow \<or> pay_amount params = 0
                 then COMPLETE else PENDING)),
           (''datePaid'',
              nullableStringField datePaid
                (pay_paymentMethod params = FedNow \<and> pay_amount params > 0))]\<rparr>"

definition fedNowCall ::
  "(string \<Rightarrow> string option) \<Rightarrow> InsertFedNowPaymentParams \<Rightarrow> string \<Rightarrow> rds_call" where
  "fedNowCall env params fedNowPaymentId =
     executeStatement
       \<lparr>database = the (env ''DATABASE''), secretArn = the (env ''SECRET_ARN''),
        resourceArn = the (env ''CLUSTER_ARN''),
        transactionId = fed_sqlTransactionId params, sql = ''INSERT ...'',
        parameters =
          [(''fedNowPaymentId'', blobField fedNowPaymentId),
           (''paymentId'', blobField (fed_paymentId params)),
           (''payerAccountId'', stringField (fed_payerAccountId params)),
           (''payeeAccountId'', stringField (fed_payeeAccountId params))]\<rparr>"

definition ledgerCall ::
  "(string \<Rightarrow> string option) \<Rightarrow> InsertLedgerEntryParams \<Rightarrow> string \<Rightarrow> rds_call" where
  "ledgerCall env params ledgerId =
     executeStatement
       \<lparr>database = the (env ''DATABASE''), secretArn = the (env ''SECRET_ARN''),
        resourceArn = the (env ''CLUSTER_ARN''),
        transactionId = led_sqlTransactionId params, sql = ''INSERT ...'',
        parameters =
          [(''ledgerId'', blobField ledgerId),
           (''payerId'', blobField (led_payerId params)),
           (''payeeId'', blobField (led_payeeId params)),
           (''amount'', doubleField (led_amount params)),
           (''interactionTypeId'', doubleField (led_interactionTypeId params)),
           (''developerId'', blobField (led_developerId params))]\<rparr>"

definition promotionCall ::
  "(string \<Rightarrow> string option) \<Rightarrow> InsertPromotionLedgerEntryParams \<Rightarrow> string \<Rightarrow> rds_call" where
  "promotionCall env params ledgerId =
     executeStatement
       \<lparr>database = the (env ''DATABASE''), secretArn = the (env ''SECRET_ARN''),
        resourceArn = the (env ''CLUSTER_ARN''),
        transactionId = promo_sqlTransactionId params, sql = ''INSERT ...'',
        parameters =
          [(''ledgerId'', blobField ledgerId),
           (''payerId'', blobField (promo_payerId params)),
           (''payeeId'', blobField (promo_payeeId params)),
           (''developerId'', blobField (promo_developerId params)),
           (''amount'', doubleField (promo_promoAmount params)),
           (''interactionTypeId'', doubleField (promo_interactionTypeId params))]\<rparr>"

definition transactionRecordCall ::
  "(string \<Rightarrow> string option) \<Rightarrow> InsertTransactionRecordParams \<Rightarrow> string \<Rightarrow> rds_call" where
  "transactionRecordCall env params pursTransactionId =
     batchExecuteStatement
       \<lparr>batch_database = the (env ''DATABASE''),
        batch_secretArn = the (env ''SECRET_ARN''),
        batch_resourceArn = the (env ''CLUSTER_ARN''),
        batch_transactionId = rec_sqlTransactionId params, batch_sql = ''INSERT ...'',
        parameterSets =
          map (\<lambda>ledgerEntry.
                 [(''transactionId'', blobField pursTransactionId),
                  (''ledgerId'', blobField ledgerEntry)])
              (rec_ledgerEntries params)\<rparr>"

text \<open>The three environment variables the writers read are set.\<close>

definition configured :: "world \<Rightarrow> bool" where
  "configured w =
     (process_env w ''DATABASE'' \<noteq> None \<and> process_env w ''SECRET_ARN'' \<noteq> None
      \<and> process_env w ''CLUSTER_ARN'' \<noteq> None)"

text \<open>
  A writer returned \<open>ident\<close> from the world \<open>w\<close>: the
  environment is set, \<open>ident\<close> is made of the next thirty-two random
  digits, the service accepted the call, and the new world has the digits consumed,
  \<open>k\<close> more clock readings taken and the call logged.
\<close>

definition wrote :: "world \<Rightarrow> (string \<Rightarrow> rds_call) \<Rightarrow> nat \<Rightarrow> string \<Rightarrow> world \<Rightarrow> bool" where
  "wrote w call k ident w' =
     (configured w
      \<and> ident = hexId (math_random w) (drawn w) 32
      \<and> rds_response w (rds_log w @ [call ident]) = None
      \<and> w' = w\<lparr>drawn := drawn w + 32, reads := reads w + k,
                rds_log := rds_log w @ [call ident]\<rparr>)"

text \<open>
  The calls of a whole bundle, in the order of the orchestrator, for given ids.
\<close>

definition bundleCalls ::
  "(string \<Rightarrow> string option) \<Rightarrow> ExecuteStandardPTOperationsParams \<Rightarrow> string option
     \<Rightarrow> string \<Rightarrow> string \<Rightarrow> string \<Rightarrow> string \<Rightarrow> string \<Rightarrow> rds_call list" where
  "bundleCalls env p datePaid pid fid lid plid tid =
     [paymentCall env (paymentParamsOf p) pid datePaid]
     @ (if fedNowGuard p then [fedNowCall env (fedNowParamsOf p pid) fid] else [])
     @ [ledgerCall env (ledgerParamsOf p) lid]
     @ (if promotionGuard p then [promotionCall env (promotionParamsOf p) plid] else [])
     @ [transactionRecordCall env
          \<lparr>rec_ledgerEntries = lid # (if promotionGuard p then [plid] else []),
           rec_sqlTransactionId = sqlTransactionId p\<rparr> tid]"

text \<open>
  How many random digits have been drawn when the ledger id, and when the
  transaction-record id, is generated.
\<close>

definition offsetLedger :: "ExecuteStandardPTOperationsParams \<Rightarrow> nat" where
  "offsetLedger p = (if fedNowGuard p then 64 else 32)"

definition offsetRecord :: "ExecuteStandardPTOperationsParams \<Rightarrow> nat" where
  "offsetRecord p = offsetLedger p + (if promotionGuard p then 64 else 32)"

text \<open>
  The payment of the bundle is pending: \<open>insertPayment\<close> then reads no
  clock.
\<close>

definition pending :: "ExecuteStandardPTOperationsParams \<Rightarrow> bool" where
  "pending p = (paymentMethod (userPurchaseInformation p) = FedNow
                \<and> amount (userPurchaseInformation p) > 0)"

text \<open>
  The service with the log \<open>lg\<close> accepts the calls one after the other.
\<close>

fun accepted :: "(rds_call list \<Rightarrow> string option) \<Rightarrow> rds_call list \<Rightarrow> rds_call list \<Rightarrow> bool" where
  "accepted resp lg [] = True"
| "accepted resp lg (c # cs) = (resp (lg @ [c]) = None \<and> accepted resp (lg @ [c]) cs)"

text \<open>
  A call is a FedNow statement when it has a parameter named
  \<open>fedNowPaymentId\<close>; only \<open>insertFedNowPayment\<close> sends such a
  statement.
\<close>

definition isFedNowWrite :: "rds_call \<Rightarrow> bool" where
  "isFedNowWrite c =
     (case c of
        executeStatement r \<Rightarrow> ''fedNowPaymentId'' \<in> set (map fst (parameters r))
      | batchExecuteStatement b \<Rightarrow> False)"

text \<open>
  \<open>tracks Q m\<close>: from any world, \<open>m\<close> leaves the service as it
  is, only appends calls to the log, each of them satisfying \<open>Q\<close>, and if
  the service raised \<open>e\<close> on one of them then \<open>m\<close> is rejected
  with \<open>StoreError e\<close> and that call is the last one.
\<close>

definition tracks :: "(rds_call \<Rightarrow> bool) \<Rightarrow> 'a io \<Rightarrow> bool" where
  "tracks Q m =
     (\<forall>w. case m w of (r, w') \<Rightarrow>
        rds_response w' = rds_response w
        \<and> (\<exists>new. rds_log w' = rds_log w @ new \<and> list_all Q new
              \<and> (\<forall>k<length new. \<forall>e.
                    rds_response w (rds_log w @ take (Suc k) new) = Some e
                    \<longrightarrow> r = Inl (StoreError e) \<and> Suc k = length new)))"

text \<open>The field of the parameter \<open>name\<close> of a statement.\<close>

definition paramOf :: "rds_call \<Rightarrow> string \<Rightarrow> Field option" where
  "paramOf c name =
     (case c of
        executeStatement r \<Rightarrow> map_of (parameters r) name
      | batchExecuteStatement b \<Rightarrow> None)"

text \<open>
  A call is a promotion statement when its parameters are named as
  \<open>insertPromotionLedgerEntry\<close> names them, in its order (the statement of
  \<open>insertLedgerEntry\<close> has the same names in another order).
\<close>

definition isPromotionWrite :: "rds_call \<Rightarrow> bool" where
  "isPromotionWrite c =
     (case c of
        executeStatement r \<Rightarrow>
          map fst (parameters r)
            = [''ledgerId'', ''payerId'', ''payeeId'', ''developerId'', ''amount'',
               ''interactionTypeId'']
      | batchExecuteStatement b \<Rightarrow> False)"

text \<open>
  The textual form \<open>YYYY-MM-DD HH:MM:SS\<close>: a digit where the pattern has
  \<open>d\<close>, and the character of the pattern elsewhere.
\<close>

definition timestamp_format :: "string \<Rightarrow> bool" where
  "timestamp_format s =
     list_all2 (\<lambda>t c. if t = CHR ''d'' then c \<in> set ''0123456789'' else c = t)
       ''dddd-dd-dd dd:dd:dd'' s"

text \<open>The calls a run has added to the log.\<close>

definition newCalls :: "world \<Rightarrow> world \<Rightarrow> rds_call list" where
  "newCalls w w' = drop (length (rds_log w)) (rds_log w')"

text \<open>
  The world of the examples: the random source gives thirty-two times
  \<open>1\<close>, then \<open>2\<close>, and so on, so that the ids are
  \<open>1111\<dots>\<close>, \<open>2222\<dots>\<close>, \<dots>; the clock reads
  2023-12-28 20:49:19.559 and one second more at each reading; the environment is the
  one of the repository's tests; the service accepts every call.
\<close>

definition example_world :: world where
  "example_world =
     \<lparr>math_random =
        (\<lambda>n. if n < 32 then 1 else if n < 64 then 2 else if n < 96 then 3
              else if n < 128 then 4 else 5),
      drawn = 0,
      date_now =
        (\<lambda>n. \<lparr>utcFullYear = 2023, utcMonth = 11, utcDate = 28, utcHours = 20,
               utcMinutes = 49, utcSeconds = 19 + n, utcMilliseconds = 559\<rparr>),
      reads = 0,
      process_env =
        map_of [(''DATABASE'', ''mock-database''), (''SECRET_ARN'', ''mock-secret-arn''),
                (''CLUSTER_ARN'', ''mock-cluster-arn'')],
      rds_response = (\<lambda>log. None),
      rds_log = []\<rparr>"

text \<open>
  A FedNow purchase with a promotion, with the ids of the repository's tests.
\<close>

definition example_params :: ExecuteStandardPTOperationsParams where
  "example_params =
     \<lparr>userPurchaseInformation =
        \<lparr>payerId = replicate 32 CHR ''b'', payeeId = replicate 32 CHR ''a'',
         developerId = replicate 32 CHR ''c'', amount = 100, interactionTypeId = 1,
         paymentMethod = FedNow,
         payerAccountId = Some (replicate 32 CHR ''e''),
         payeeAccountId = Some (replicate 32 CHR ''f'')\<rparr>,
      promotionInformation = \<lparr>promoAmount = Some 10\<rparr>,
      sqlTransactionId = replicate 32 CHR ''d''\<rparr>"

text \<open>The invalid input of the repository's orchestrator test.\<close>

definition invalid_params :: ExecuteStandardPTOperationsParams where
  "invalid_params =
     \<lparr>userPurchaseInformation =
        \<lparr>payerId = ''invalid'', payeeId = ''invalid'', developerId = ''invalid'',
         amount = - 1, interactionTypeId = 1, paymentMethod = Card,
         payerAccountId = None, payeeAccountId = None\<rparr>,
      promotionInformation = \<lparr>promoAmount = None\<rparr>,
      sqlTransactionId = replicate 32 CHR ''d''\<rparr>"

text \<open>
  An input whose ids have thirty-two characters, none of them a hexadecimal digit.
\<close>

definition nonhex_params :: ExecuteStandardPTOperationsParams where
  "nonhex_params =
     \<lparr>userPurchaseInformation =
        \<lparr>payerId = replicate 32 CHR ''g'', payeeId = replicate 32 CHR ''h'',
         developerId = replicate 32 CHR ''i'', amount = 100, interactionTypeId = 1,
         paymentMethod = Card, payerAccountId = None, payeeAccountId = None\<rparr>,
      promotionInformation = \<lparr>promoAmount = None\<rparr>,
      sqlTransactionId = replicate 32 CHR ''k''\<rparr>"

text \<open>
  The card payment of the repository's \<open>insertPayment\<close> test.
\<close>

definition card_payment :: InsertPaymentParams where
  "card_payment =
     \<lparr>pay_payerId = replicate 32 CHR ''b'', pay_payeeId = replicate 32 CHR ''a'',
      pay_developerId = replicate 32 CHR ''c'', pay_amount = 100,
      pay_interactionTypeId = 1, pay_paymentMethod = Card,
      pay_sqlTransactionId = replicate 32 CHR ''d''\<rparr>"

text \<open>A ledger entry with a negative amount and nothing else wrong.\<close>

definition negative_ledger_entry :: InsertLedgerEntryParams where
  "negative_ledger_entry =
     \<lparr>led_payerId = replicate 32 CHR ''b'', led_payeeId = replicate 32 CHR ''a'',
      led_developerId = replicate 32 CHR ''c'', led_amount = - 1,
      led_interactionTypeId = 1, led_sqlTransactionId = replicate 32 CHR ''d''\<rparr>"

text \<open>
  The calls that are sent of a list of planned ones: each call is sent, and the next
  ones only if the service accepted it.
\<close>

fun sentCalls ::
  "(rds_call list \<Rightarrow> string option) \<Rightarrow> rds_call list \<Rightarrow> rds_call list \<Rightarrow> rds_call list" where
  "sentCalls resp lg [] = []"
| "sentCalls resp lg (c # cs) =
     c # (case resp (lg @ [c]) of None \<Rightarrow> sentCalls resp (lg @ [c]) cs | Some e \<Rightarrow> [])"

text \<open>The calls and the result of the example run.\<close>

definition example_calls :: "rds_call list" where
  "example_calls =
     bundleCalls (process_env example_world) example_params None
       (replicate 32 CHR ''1'') (replicate 32 CHR ''2'') (replicate 32 CHR ''3'')
       (replicate 32 CHR ''4'') (replicate 32 CHR ''5'')"

definition example_result :: IdObject where
  "example_result =
     \<lparr>primaryPaymentID = Some (replicate 32 CHR ''1''),
      customerLedgerEntryID = Some (replicate 32 CHR ''3''),
      pursTransactionID = Some (replicate 32 CHR ''5''),
      primaryFedNowPaymentID = Some (replicate 32 CHR ''2''),
      promotionLedgerEntryID = Some (replicate 32 CHR ''4'')\<rparr>"

text \<open>
  The example world with a service that refuses the third call, and the calls of the
  example run there.
\<close>

definition failing_world :: world where
  "failing_world =
     example_world\<lparr>rds_response :=
       (\<lambda>log. if length log = 3 then Some ''Database operation failed'' else None)\<rparr>"

definition failing_calls :: "rds_call list" where
  "failing_calls =
     [paymentCall (process_env example_world) (paymentParamsOf example_params)
        (replicate 32 CHR ''1'') None,
      fedNowCall (process_env example_world)
        (fedNowParamsOf example_params (replicate 32 CHR ''1'')) (replicate 32 CHR ''2''),
      ledgerCall (process_env example_world) (ledgerParamsOf example_params)
        (replicate 32 CHR ''3'')]"

section \<open>Auxiliary lemmas\<close>

subsection \<open>What \<open>genId\<close> returns\<close>

lemma genId_loop_eq:
  "genId_loop n res w =
     (res @ hexId (math_random w) (drawn w) n, w\<lparr>drawn := drawn w + n\<rparr>)"
proof (induction n arbitrary: res w)
  case 0
  then show ?case by (simp add: hexId_def)
next
  case (Suc n)
  have "[0..<Suc n] = 0 # map Suc [0..<n]"
    by (simp add: upt_conv_Cons map_Suc_upt del: upt_Suc)
  then have "hexId (math_random w) (drawn w) (Suc n) =
      toString16 (math_random w (drawn w)) @ hexId (math_random w) (Suc (drawn w)) n"
    by (simp add: hexId_def comp_def del: upt_Suc)
  then show ?case by (simp add: Suc.IH Let_def)
qed

lemma genId_eq:
  "genId n w = (hexId (math_random w) (drawn w) n, w\<lparr>drawn := drawn w + n\<rparr>)"
  by (simp add: genId_def genId_loop_eq)

lemma length_hexId [simp]: "length (hexId rnd k n) = n"
  by (induction n) (simp_all add: hexId_def toString16_def)

lemma callGenId_genId:
  "callGenId genId n w = (Inr (hexId (math_random w) (drawn w) n), w\<lparr>drawn := drawn w + n\<rparr>)"
  by (simp add: callGenId_def genId_eq)

lemma andThen_Inr: "m w = (Inr x, w') \<Longrightarrow> andThen m f w = f x w'"
  by (simp add: andThen_def)

lemma andThen_Inl: "m w = (Inl e, w') \<Longrightarrow> andThen m f w = (Inl e, w')"
  by (simp add: andThen_def)

lemma parse_ok: "s [] x = [] \<Longrightarrow> parse s x w = (Inr x, w)"
  by (simp add: parse_def resolve_def)

lemma parse_fail: "s [] x \<noteq> [] \<Longrightarrow> parse s x w = (Inl (ZodError (s [] x)), w)"
  by (simp add: parse_def reject_def)

lemma getEnvVariable_Some:
  "process_env w name = Some v \<Longrightarrow> getEnvVariable name w = (Inr v, w)"
  by (simp add: getEnvVariable_def)

lemma formatDate_eq:
  "formatDate date w =
     (Inr (replace CHR ''T'' CHR '' '' (slice0 19 (toISOString (date_now w (reads w))))),
      w\<lparr>reads := Suc (reads w)\<rparr>)"
  by (simp add: formatDate_def andThen_def new_Date_def resolve_def)


subsection \<open>The steps of a run that returns\<close>

lemma andThen_Inr_iff:
  "andThen m f w = (Inr y, w') \<longleftrightarrow> (\<exists>x w1. m w = (Inr x, w1) \<and> f x w1 = (Inr y, w'))"
  by (auto simp: andThen_def split: prod.splits sum.splits)

lemma resolve_eq [simp]: "resolve x w = (r, w') \<longleftrightarrow> r = Inr x \<and> w' = w"
  by (auto simp: resolve_def)

lemma parse_Inr_iff:
  "parse s x w = (Inr y, w') \<longleftrightarrow> s [] x = [] \<and> y = x \<and> w' = w"
  by (auto simp: parse_def reject_def)

lemma fedNowStep_Inr_iff:
  "fedNowStep db p pid idObj w = (Inr idObj', w') \<longleftrightarrow>
     (if fedNowGuard p
      then \<exists>fid. insertFedNowPayment db (fedNowParamsOf p pid) w = (Inr fid, w')
             \<and> idObj' = idObj\<lparr>primaryFedNowPaymentID := Some fid\<rparr>
      else idObj' = idObj \<and> w' = w)"
  by (auto simp: fedNowStep_def fedNowGuard_def fedNowParamsOf_def Let_def andThen_Inr_iff)

lemma promotionStep_Inr_iff:
  "promotionStep db p les idObj w = (Inr (les', idObj'), w') \<longleftrightarrow>
     (if promotionGuard p
      then \<exists>plid. insertPromotionLedgerEntry db (promotionParamsOf p) w = (Inr plid, w')
             \<and> les' = les @ [plid]
             \<and> idObj' = idObj\<lparr>promotionLedgerEntryID := Some plid\<rparr>
      else les' = les \<and> idObj' = idObj \<and> w' = w)"
  by (auto simp: promotionStep_def promotionGuard_def promotionParamsOf_def Let_def
      andThen_Inr_iff split: option.splits)

lemma run_Inr_iff:
  "executeStandardPTOperations db p w = (Inr ids, w') \<longleftrightarrow>
     (ExecuteStandardPTOperationsParamsSchema [] p = [] \<and>
      (\<exists>pid w1 ids2 w2 lid w3 les ids4 w4 tid.
         insertPayment db (paymentParamsOf p) w = (Inr pid, w1)
         \<and> fedNowStep db p pid
              \<lparr>primaryPaymentID = Some pid, customerLedgerEntryID = None,
               pursTransactionID = None, primaryFedNowPaymentID = None,
               promotionLedgerEntryID = None\<rparr> w1 = (Inr ids2, w2)
         \<and> insertLedgerEntry db (ledgerParamsOf p) w2 = (Inr lid, w3)
         \<and> promotionStep db p [lid] (ids2\<lparr>customerLedgerEntryID := Some lid\<rparr>) w3
              = (Inr (les, ids4), w4)
         \<and> insertTransactionRecord db
              \<lparr>rec_ledgerEntries = les, rec_sqlTransactionId = sqlTransactionId p\<rparr> w4
              = (Inr tid, w')
         \<and> ids = ids4\<lparr>pursTransactionID := Some tid\<rparr>))"
  unfolding executeStandardPTOperations_def paymentParamsOf_def ledgerParamsOf_def Let_def
  by (simp add: andThen_Inr_iff parse_Inr_iff split_paired_all)


subsection \<open>The calls of the writers\<close>

lemma getEnvVariable_Inr_iff:
  "getEnvVariable name w = (Inr v, w') \<longleftrightarrow> process_env w name = Some v \<and> w' = w"
  by (auto simp: getEnvVariable_def split: option.splits)

lemma callGenId_genId_iff:
  "callGenId genId n w = (Inr s, w') \<longleftrightarrow>
     s = hexId (math_random w) (drawn w) n \<and> w' = w\<lparr>drawn := drawn w + n\<rparr>"
  by (auto simp: callGenId_genId)

lemma rds_send_Inr_iff:
  "rds_send c w = (Inr u, w') \<longleftrightarrow>
     rds_response w (rds_log w @ [c]) = None \<and> w' = w\<lparr>rds_log := rds_log w @ [c]\<rparr>"
  by (auto simp: rds_send_def Let_def split: option.splits)

lemmas io_Inr_iff =
  andThen_Inr_iff parse_Inr_iff getEnvVariable_Inr_iff callGenId_genId_iff
  RDS_executeStatement_def RDS_batchExecuteStatement_def rds_send_Inr_iff

lemma insertFedNowPayment_db_Inr_iff:
  "insertFedNowPayment_db genId params w = (Inr ident, w') \<longleftrightarrow>
     InsertFedNowPaymentParamsSchema [] params = []
     \<and> wrote w (fedNowCall (process_env w) params) 0 ident w'"
  unfolding insertFedNowPayment_db_def wrote_def configured_def fedNowCall_def
  by (auto simp: io_Inr_iff)

lemma insertLedgerEntry_db_Inr_iff:
  "insertLedgerEntry_db genId params w = (Inr ident, w') \<longleftrightarrow>
     InsertLedgerEntryParamsSchema [] params = []
     \<and> wrote w (ledgerCall (process_env w) params) 0 ident w'"
  unfolding insertLedgerEntry_db_def wrote_def configured_def ledgerCall_def
  by (auto simp: io_Inr_iff)

lemma insertPromotionLedgerEntry_db_Inr_iff:
  "insertPromotionLedgerEntry_db genId params w = (Inr ident, w') \<longleftrightarrow>
     InsertPromotionLedgerEntryParamsSchema [] params = []
     \<and> wrote w (promotionCall (process_env w) params) 0 ident w'"
  unfolding insertPromotionLedgerEntry_db_def wrote_def configured_def promotionCall_def
  by (auto simp: io_Inr_iff)

lemma insertTransactionRecord_db_Inr_iff:
  "insertTransactionRecord_db genId params w = (Inr ident, w') \<longleftrightarrow>
     InsertTransactionRecordParamsSchema [] params = []
     \<and> wrote w (transactionRecordCall (process_env w) params) 0 ident w'"
  unfolding insertTransactionRecord_db_def wrote_def configured_def transactionRecordCall_def
  by (auto simp: io_Inr_iff)

lemma datePaid_Inr_iff:
  "(if pay_paymentMethod params = FedNow \<and> pay_amount params > 0 then resolve None
    else andThen new_Date (\<lambda>d. andThen (formatDate d) (\<lambda>s. resolve (Some s)))) w
     = (Inr dp, w') \<longleftrightarrow>
   dp = paymentDatePaid params w
   \<and> w' = w\<lparr>reads := reads w
               + (if pay_paymentMethod params = FedNow \<and> pay_amount params > 0 then 0 else 2)\<rparr>"
  by (auto simp: paymentDatePaid_def andThen_def new_Date_def formatDate_def resolve_def)

lemma insertPayment_db_Inr_iff:
  "insertPayment_db genId params w = (Inr ident, w') \<longleftrightarrow>
     InsertPaymentParamsSchema [] params = []
     \<and> wrote w (\<lambda>ident. paymentCall (process_env w) params ident (paymentDatePaid params w))
          (if pay_paymentMethod params = FedNow \<and> pay_amount params > 0 then 0 else 2)
          ident w'"
  unfolding insertPayment_db_def wrote_def configured_def paymentCall_def
  by (auto simp: io_Inr_iff datePaid_Inr_iff paymentDatePaid_def)


subsection \<open>The calls of a run that returns\<close>

lemma z_string_length_Nil [simp]: "z_string_length n p s = [] \<longleftrightarrow> length s = n"
  by (auto simp: z_string_length_def)

lemma z_number_nonnegative_Nil [simp]: "z_number_nonnegative p x = [] \<longleftrightarrow> 0 \<le> x"
  by (auto simp: z_number_nonnegative_def)

lemma z_nativeEnum_Nil [simp]:
  "z_nativeEnum_PaymentMethod p x = [] \<longleftrightarrow> x = FedNow \<or> x = Card"
  by (auto simp: z_nativeEnum_PaymentMethod_def)

lemma z_optional_Nil [simp]:
  "z_optional s p v = [] \<longleftrightarrow> (case v of None \<Rightarrow> True | Some x \<Rightarrow> s p x = [])"
  by (auto simp: z_optional_def split: option.splits)

lemma z_array_Nil [simp]: "z_array_string_nonempty p xs = [] \<longleftrightarrow> xs \<noteq> []"
  by (cases xs) (auto simp: z_array_string_nonempty_def)

lemma bundle_valid_iff:
  "ExecuteStandardPTOperationsParamsSchema [] p = [] \<longleftrightarrow>
     (let u = userPurchaseInformation p in
      length (payeeId u) = 32 \<and> length (payerId u) = 32
      \<and> (case payerAccountId u of None \<Rightarrow> True | Some a \<Rightarrow> length a = 32)
      \<and> (case payeeAccountId u of None \<Rightarrow> True | Some a \<Rightarrow> length a = 32)
      \<and> length (developerId u) = 32 \<and> 0 \<le> amount u
      \<and> (paymentMethod u = FedNow \<or> paymentMethod u = Card)
      \<and> (case promoAmount (promotionInformation p) of None \<Rightarrow> True | Some a \<Rightarrow> 0 \<le> a)
      \<and> length (sqlTransactionId p) = 32)"
  by (simp add: ExecuteStandardPTOperationsParamsSchema_def UserPurchaseInformationSchema_def
      PromotionInformationSchema_def z_number_def Let_def split: option.splits)

lemma payment_valid:
  "ExecuteStandardPTOperationsParamsSchema [] p = [] \<Longrightarrow>
     InsertPaymentParamsSchema [] (paymentParamsOf p) = []"
  by (simp add: bundle_valid_iff InsertPaymentParamsSchema_def paymentParamsOf_def z_number_def
      Let_def)

lemma fedNow_valid:
  "ExecuteStandardPTOperationsParamsSchema [] p = [] \<Longrightarrow> fedNowGuard p \<Longrightarrow> length pid = 32 \<Longrightarrow>
     InsertFedNowPaymentParamsSchema [] (fedNowParamsOf p pid) = []"
  by (auto simp: bundle_valid_iff InsertFedNowPaymentParamsSchema_def fedNowParamsOf_def
      fedNowGuard_def Let_def)

lemma ledger_valid:
  "ExecuteStandardPTOperationsParamsSchema [] p = [] \<Longrightarrow>
     InsertLedgerEntryParamsSchema [] (ledgerParamsOf p) = []"
  by (simp add: bundle_valid_iff InsertLedgerEntryParamsSchema_def ledgerParamsOf_def
      z_number_def z_string_def Let_def)

lemma promotion_valid:
  "ExecuteStandardPTOperationsParamsSchema [] p = [] \<Longrightarrow> promotionGuard p \<Longrightarrow>
     InsertPromotionLedgerEntryParamsSchema [] (promotionParamsOf p) = []"
  by (auto simp: bundle_valid_iff InsertPromotionLedgerEntryParamsSchema_def
      promotionParamsOf_def promotionGuard_def z_number_def Let_def split: option.splits)

lemma record_valid:
  "ExecuteStandardPTOperationsParamsSchema [] p = [] \<Longrightarrow>
     InsertTransactionRecordParamsSchema []
       \<lparr>rec_ledgerEntries = l # ls, rec_sqlTransactionId = sqlTransactionId p\<rparr> = []"
  by (simp add: bundle_valid_iff InsertTransactionRecordParamsSchema_def Let_def)

lemmas real_db_Inr_iff =
  createDatabaseOperations_def insertPayment_db_Inr_iff insertFedNowPayment_db_Inr_iff
  insertLedgerEntry_db_Inr_iff insertPromotionLedgerEntry_db_Inr_iff
  insertTransactionRecord_db_Inr_iff

lemma run_real_Inr_iff:
  "executeStandardPTOperations (createDatabaseOperations genId) p w = (Inr ids, w') \<longleftrightarrow>
     ExecuteStandardPTOperationsParamsSchema [] p = []
     \<and> configured w
     \<and> (let rnd = math_random w; k = drawn w;
             pid = hexId rnd k 32;
             fid = hexId rnd (k + 32) 32;
             lid = hexId rnd (k + offsetLedger p) 32;
             plid = hexId rnd (k + offsetLedger p + 32) 32;
             tid = hexId rnd (k + offsetRecord p) 32;
             calls = bundleCalls (process_env w) p
                       (paymentDatePaid (paymentParamsOf p) w) pid fid lid plid tid
         in accepted (rds_response w) (rds_log w) calls
            \<and> w' = w\<lparr>drawn := drawn w + offsetRecord p + 32,
                      reads := reads w + (if pending p then 0 else 2),
                      rds_log := rds_log w @ calls\<rparr>
            \<and> ids = \<lparr>primaryPaymentID = Some pid, customerLedgerEntryID = Some lid,
                     pursTransactionID = Some tid,
                     primaryFedNowPaymentID = (if fedNowGuard p then Some fid else None),
                     promotionLedgerEntryID =
                       (if promotionGuard p then Some plid else None)\<rparr>)"
proof (cases "ExecuteStandardPTOperationsParamsSchema [] p = []")
  case False
  then show ?thesis by (simp add: run_Inr_iff)
next
  case valid: True
  have pend: "(pay_paymentMethod (paymentParamsOf p) = FedNow \<and> 0 < pay_amount (paymentParamsOf p))
      = pending p"
    by (simp add: paymentParamsOf_def pending_def Let_def)
  note vs = payment_valid [OF valid] ledger_valid [OF valid] record_valid [OF valid]
  note defs = run_Inr_iff real_db_Inr_iff
            fedNowStep_Inr_iff promotionStep_Inr_iff wrote_def configured_def bundleCalls_def
            offsetLedger_def offsetRecord_def Let_def add.assoc
  show ?thesis
  proof (cases "fedNowGuard p")
    case fg: True
    note fv = fedNow_valid [OF valid fg]
    show ?thesis
    proof (cases "promotionGuard p")
      case pg: True
      note pv = promotion_valid [OF valid pg]
      show ?thesis
        by (simp add: valid fg pg vs fv pv pend defs cong: conj_cong) 
    next
      case pg: False
      show ?thesis
        by (simp add: valid fg pg vs fv pend defs cong: conj_cong)
    qed
  next
    case fg: False
    show ?thesis
    proof (cases "promotionGuard p")
      case pg: True
      note pv = promotion_valid [OF valid pg]
      show ?thesis
        by (simp add: valid fg pg vs pv pend defs cong: conj_cong)
    next
      case pg: False
      show ?thesis
        by (simp add: valid fg pg vs pend defs cong: conj_cong)
    qed
  qed
qed


subsection \<open>The log of any run\<close>

lemma tracks_silent:
  assumes "\<And>w. rds_response (snd (m w)) = rds_response w \<and> rds_log (snd (m w)) = rds_log w"
  shows "tracks Q m"
  unfolding tracks_def
proof (intro allI)
  fix w
  obtain r w' where mw: "m w = (r, w')" by (cases "m w")
  from assms [of w] mw have "rds_response w' = rds_response w" "rds_log w' = rds_log w @ []"
    by simp_all
  then show "case m w of (r, w') \<Rightarrow>
        rds_response w' = rds_response w
        \<and> (\<exists>new. rds_log w' = rds_log w @ new \<and> list_all Q new
              \<and> (\<forall>k<length new. \<forall>e.
                    rds_response w (rds_log w @ take (Suc k) new) = Some e
                    \<longrightarrow> r = Inl (StoreError e) \<and> Suc k = length new))"
    unfolding mw by (intro case_prodI conjI exI [of _ "[]"]) simp_all
qed

lemma tracks_resolve: "tracks Q (resolve x)"
  by (rule tracks_silent) (simp add: resolve_def)

lemma tracks_reject: "tracks Q (reject e)"
  by (rule tracks_silent) (simp add: reject_def)

lemma tracks_parse: "tracks Q (parse s x)"
  by (rule tracks_silent) (simp add: parse_def resolve_def reject_def)

lemma tracks_getEnvVariable: "tracks Q (getEnvVariable name)"
  by (rule tracks_silent) (simp add: getEnvVariable_def split: option.splits)

lemma tracks_new_Date: "tracks Q new_Date"
  by (rule tracks_silent) (simp add: new_Date_def)

lemma tracks_formatDate: "tracks Q (formatDate d)"
  by (rule tracks_silent) (simp add: formatDate_eq)

lemma tracks_callGenId: "tracks Q (callGenId genId n)"
  by (rule tracks_silent) (simp add: callGenId_genId)

lemma tracks_rds_send: "Q c \<Longrightarrow> tracks Q (rds_send c)"
  unfolding tracks_def
  by (auto simp: rds_send_def Let_def split: option.splits intro!: exI [of _ "[c]"])

lemma tracks_andThen:
  assumes m: "tracks Q m" and f: "\<And>x. tracks Q (f x)"
  shows "tracks Q (andThen m f)"
  unfolding tracks_def
proof (intro allI)
  fix w
  obtain r1 w1 where mw: "m w = (r1, w1)" by (cases "m w")
  from m [unfolded tracks_def, rule_format, of w] mw
  obtain new1 where resp1: "rds_response w1 = rds_response w"
    and log1: "rds_log w1 = rds_log w @ new1" and q1: "list_all Q new1"
    and ab1: "\<And>k e. k < length new1 \<Longrightarrow>
                rds_response w (rds_log w @ take (Suc k) new1) = Some e \<Longrightarrow>
                r1 = Inl (StoreError e) \<and> Suc k = length new1"
    by auto
  show "case andThen m f w of (r, w') \<Rightarrow>
        rds_response w' = rds_response w
        \<and> (\<exists>new. rds_log w' = rds_log w @ new \<and> list_all Q new
              \<and> (\<forall>k<length new. \<forall>e.
                    rds_response w (rds_log w @ take (Suc k) new) = Some e
                    \<longrightarrow> r = Inl (StoreError e) \<and> Suc k = length new))"
  proof (cases r1)
    case (Inl e1)
    then have "andThen m f w = (Inl e1, w1)" by (simp add: andThen_def mw)
    then show ?thesis using resp1 log1 q1 ab1 Inl by auto
  next
    case (Inr x)
    obtain r2 w2 where fw: "f x w1 = (r2, w2)" by (cases "f x w1")
    from f [of x, unfolded tracks_def, rule_format, of w1] fw
    obtain new2 where resp2: "rds_response w2 = rds_response w1"
      and log2: "rds_log w2 = rds_log w1 @ new2" and q2: "list_all Q new2"
      and ab2: "\<And>k e. k < length new2 \<Longrightarrow>
                  rds_response w1 (rds_log w1 @ take (Suc k) new2) = Some e \<Longrightarrow>
                  r2 = Inl (StoreError e) \<and> Suc k = length new2"
      by auto
    have run: "andThen m f w = (r2, w2)" by (simp add: andThen_def mw Inr fw)
    have ab: "r2 = Inl (StoreError e) \<and> Suc k = length (new1 @ new2)"
      if k: "k < length (new1 @ new2)"
        and e: "rds_response w (rds_log w @ take (Suc k) (new1 @ new2)) = Some e" for k e
    proof (cases "k < length new1")
      case True
      then have t: "take (Suc k) (new1 @ new2) = take (Suc k) new1" by simp
      from e have "rds_response w (rds_log w @ take (Suc k) new1) = Some e"
        by (simp only: t)
      from ab1 [OF True this] Inr show ?thesis by simp
    next
      case False
      then have t: "take (Suc k) (new1 @ new2) = new1 @ take (Suc (k - length new1)) new2"
        by (simp add: Suc_diff_le)
      from False k have k2: "k - length new1 < length new2" by simp
      from e have "rds_response w (rds_log w @ new1 @ take (Suc (k - length new1)) new2) = Some e"
        by (simp only: t)
      then have "rds_response w1 (rds_log w1 @ take (Suc (k - length new1)) new2) = Some e"
        by (simp add: resp1 log1)
      from ab2 [OF k2 this] False show ?thesis by auto
    qed
    show ?thesis
      unfolding run
      by (intro case_prodI conjI exI [of _ "new1 @ new2"])
        (use resp1 resp2 log1 log2 q1 q2 ab in simp_all)
  qed
qed

lemma tracks_if: "(c \<Longrightarrow> tracks Q a) \<Longrightarrow> (\<not> c \<Longrightarrow> tracks Q b) \<Longrightarrow> tracks Q (if c then a else b)"
  by simp

lemmas tracks_intros =
  tracks_andThen tracks_resolve tracks_reject tracks_parse tracks_getEnvVariable
  tracks_new_Date tracks_formatDate tracks_callGenId tracks_if

lemma tracks_insertPayment_db:
  "(\<And>r. map fst (parameters r) = [''paymentId'', ''payerId'', ''payeeId'', ''developerId'',
       ''paymentAmount'', ''interactionTypeId'', ''paymentMethod'', ''paymentStatus'', ''datePaid'']
     \<Longrightarrow> Q (executeStatement r))
   \<Longrightarrow> tracks Q (insertPayment_db genId params)"
  unfolding insertPayment_db_def RDS_executeStatement_def
  by (intro tracks_intros tracks_rds_send) simp

lemma tracks_insertFedNowPayment_db:
  "(\<And>r. map fst (parameters r) = [''fedNowPaymentId'', ''paymentId'', ''payerAccountId'',
       ''payeeAccountId'']
     \<Longrightarrow> Q (executeStatement r))
   \<Longrightarrow> tracks Q (insertFedNowPayment_db genId params)"
  unfolding insertFedNowPayment_db_def RDS_executeStatement_def
  by (intro tracks_intros tracks_rds_send) simp

lemma tracks_insertLedgerEntry_db:
  "(\<And>r. map fst (parameters r) = [''ledgerId'', ''payerId'', ''payeeId'', ''amount'',
       ''interactionTypeId'', ''developerId'']
     \<Longrightarrow> Q (executeStatement r))
   \<Longrightarrow> tracks Q (insertLedgerEntry_db genId params)"
  unfolding insertLedgerEntry_db_def RDS_executeStatement_def
  by (intro tracks_intros tracks_rds_send) simp

lemma tracks_insertPromotionLedgerEntry_db:
  "(\<And>r. map fst (parameters r) = [''ledgerId'', ''payerId'', ''payeeId'', ''developerId'',
       ''amount'', ''interactionTypeId'']
     \<Longrightarrow> Q (executeStatement r))
   \<Longrightarrow> tracks Q (insertPromotionLedgerEntry_db genId params)"
  unfolding insertPromotionLedgerEntry_db_def RDS_executeStatement_def
  by (intro tracks_intros tracks_rds_send) simp

lemma tracks_insertTransactionRecord_db:
  "(\<And>b. Q (batchExecuteStatement b))
   \<Longrightarrow> tracks Q (insertTransactionRecord_db genId params)"
  unfolding insertTransactionRecord_db_def RDS_batchExecuteStatement_def
  by (intro tracks_intros tracks_rds_send) 

lemma tracks_fedNowStep:
  assumes "fedNowGuard p \<Longrightarrow> tracks Q (insertFedNowPayment db (fedNowParamsOf p pid))"
  shows "tracks Q (fedNowStep db p pid idObj)"
proof (cases "fedNowGuard p")
  case True
  then have "fedNowStep db p pid idObj =
      andThen (insertFedNowPayment db (fedNowParamsOf p pid))
        (\<lambda>fid. resolve (idObj\<lparr>primaryFedNowPaymentID := Some fid\<rparr>))"
    by (simp add: fedNowStep_def fedNowGuard_def fedNowParamsOf_def Let_def)
  with assms [OF True] show ?thesis by (simp add: tracks_andThen tracks_resolve)
next
  case False
  then have "fedNowStep db p pid idObj = resolve idObj"
    by (auto simp: fedNowStep_def fedNowGuard_def Let_def)
  then show ?thesis by (simp add: tracks_resolve)
qed

lemma tracks_promotionStep:
  assumes "promotionGuard p \<Longrightarrow> tracks Q (insertPromotionLedgerEntry db (promotionParamsOf p))"
  shows "tracks Q (promotionStep db p les idObj)"
proof (cases "promotionGuard p")
  case True
  then have "promotionStep db p les idObj =
      andThen (insertPromotionLedgerEntry db (promotionParamsOf p))
        (\<lambda>plid. resolve (les @ [plid], idObj\<lparr>promotionLedgerEntryID := Some plid\<rparr>))"
    by (auto simp: promotionStep_def promotionGuard_def promotionParamsOf_def Let_def
        split: option.splits)
  with assms [OF True] show ?thesis by (simp add: tracks_andThen tracks_resolve)
next
  case False
  then have "promotionStep db p les idObj = resolve (les, idObj)"
    by (auto simp: promotionStep_def promotionGuard_def Let_def split: option.splits)
  then show ?thesis by (simp add: tracks_resolve)
qed

lemma tracks_run:
  assumes pay: "\<And>r. map fst (parameters r) = [''paymentId'', ''payerId'', ''payeeId'',
       ''developerId'', ''paymentAmount'', ''interactionTypeId'', ''paymentMethod'',
       ''paymentStatus'', ''datePaid''] \<Longrightarrow> Q (executeStatement r)"
    and fed: "\<And>r. fedNowGuard p \<Longrightarrow> map fst (parameters r) = [''fedNowPaymentId'',
       ''paymentId'', ''payerAccountId'', ''payeeAccountId''] \<Longrightarrow> Q (executeStatement r)"
    and led: "\<And>r. map fst (parameters r) = [''ledgerId'', ''payerId'', ''payeeId'', ''amount'',
       ''interactionTypeId'', ''developerId''] \<Longrightarrow> Q (executeStatement r)"
    and pro: "\<And>r. promotionGuard p \<Longrightarrow> map fst (parameters r) = [''ledgerId'', ''payerId'',
       ''payeeId'', ''developerId'', ''amount'', ''interactionTypeId'']
       \<Longrightarrow> Q (executeStatement r)"
    and batch: "\<And>b. Q (batchExecuteStatement b)"
  shows "tracks Q (executeStandardPTOperations (createDatabaseOperations genId) p)"
proof -
  let ?db = "createDatabaseOperations genId"
  have 1: "tracks Q (insertPayment ?db x)" for x
    by (simp add: createDatabaseOperations_def tracks_insertPayment_db pay)
  have 2: "tracks Q (fedNowStep ?db p pid idObj)" for pid idObj
    by (rule tracks_fedNowStep)
      (simp add: createDatabaseOperations_def tracks_insertFedNowPayment_db fed)
  have 3: "tracks Q (insertLedgerEntry ?db x)" for x
    by (simp add: createDatabaseOperations_def tracks_insertLedgerEntry_db led)
  have 4: "tracks Q (promotionStep ?db p les idObj)" for les idObj
    by (rule tracks_promotionStep)
      (simp add: createDatabaseOperations_def tracks_insertPromotionLedgerEntry_db pro)
  have 5: "tracks Q (insertTransactionRecord ?db x)" for x
    by (simp add: createDatabaseOperations_def tracks_insertTransactionRecord_db batch)
  show ?thesis
    unfolding executeStandardPTOperations_def Let_def
    by (intro tracks_andThen tracks_parse 1 2 3 4 5 tracks_resolve)
      (simp add: split_def tracks_andThen tracks_resolve 5)
qed

lemma tracks_run_any:
  "tracks (\<lambda>c. True) (executeStandardPTOperations (createDatabaseOperations genId) p)"
  by (rule tracks_run) simp_all

text \<open>What \<open>tracks\<close> says of one run.\<close>

lemma tracksD:
  assumes "tracks Q m" and "m w = (r, w')"
  shows "\<exists>new. rds_log w' = rds_log w @ new \<and> list_all Q new
           \<and> (\<forall>k<length new. \<forall>e.
                 rds_response w (rds_log w @ take (Suc k) new) = Some e
                 \<longrightarrow> r = Inl (StoreError e) \<and> Suc k = length new)"
  using assms(1) [unfolded tracks_def, rule_format, of w] assms(2) by auto


subsection \<open>What a writer sends\<close>

lemma rds_send_eq:
  "rds_send c w =
     (case rds_response w (rds_log w @ [c]) of
        Some e \<Rightarrow> Inl (StoreError e) | None \<Rightarrow> Inr (),
      w\<lparr>rds_log := rds_log w @ [c]\<rparr>)"
  by (simp add: rds_send_def Let_def split: option.splits)

lemma andThen_rds_send_resolve:
  "andThen (rds_send c) (\<lambda>_. resolve x) w =
     (case rds_response w (rds_log w @ [c]) of
        Some e \<Rightarrow> Inl (StoreError e) | None \<Rightarrow> Inr x,
      w\<lparr>rds_log := rds_log w @ [c]\<rparr>)"
  by (simp add: andThen_def rds_send_eq resolve_def split: option.splits)

lemma getEnvVariable_configured:
  "configured w \<Longrightarrow>
     getEnvVariable ''DATABASE'' w = (Inr (the (process_env w ''DATABASE'')), w)
     \<and> getEnvVariable ''SECRET_ARN'' w = (Inr (the (process_env w ''SECRET_ARN'')), w)
     \<and> getEnvVariable ''CLUSTER_ARN'' w = (Inr (the (process_env w ''CLUSTER_ARN'')), w)"
  by (auto simp: configured_def getEnvVariable_def)

lemma configured_drawn [simp]: "configured (w\<lparr>drawn := n\<rparr>) = configured w"
  by (simp add: configured_def)

lemma configured_reads [simp]: "configured (w\<lparr>reads := n\<rparr>) = configured w"
  by (simp add: configured_def)

lemma configured_rds_log [simp]: "configured (w\<lparr>rds_log := l\<rparr>) = configured w"
  by (simp add: configured_def)

lemma writer_tail:
  assumes "configured w"
  shows "andThen (getEnvVariable ''DATABASE'') (\<lambda>db.
         andThen (getEnvVariable ''SECRET_ARN'') (\<lambda>secret.
         andThen (getEnvVariable ''CLUSTER_ARN'') (\<lambda>cluster. k db secret cluster))) w
       = k (the (process_env w ''DATABASE'')) (the (process_env w ''SECRET_ARN''))
           (the (process_env w ''CLUSTER_ARN'')) w"
  using getEnvVariable_configured [OF assms] by (simp add: andThen_def)

lemma insertPayment_db_sent:
  assumes "InsertPaymentParamsSchema [] params = []" and "configured w"
  shows "insertPayment_db genId params w =
     (let ident = hexId (math_random w) (drawn w) 32;
          c = paymentCall (process_env w) params ident (paymentDatePaid params w)
      in (case rds_response w (rds_log w @ [c]) of
            Some e \<Rightarrow> Inl (StoreError e) | None \<Rightarrow> Inr ident,
          w\<lparr>drawn := drawn w + 32,
            reads := reads w
              + (if pay_paymentMethod params = FedNow \<and> pay_amount params > 0 then 0 else 2),
            rds_log := rds_log w @ [c]\<rparr>))"
proof -
  let ?w1 = "w\<lparr>drawn := drawn w + 32\<rparr>"
  have c1: "configured ?w1" using assms(2) by simp
  have "insertPayment_db genId params w
      = andThen (getEnvVariable ''DATABASE'') (\<lambda>db.
         andThen (getEnvVariable ''SECRET_ARN'') (\<lambda>secret.
         andThen (getEnvVariable ''CLUSTER_ARN'') (\<lambda>cluster.
         andThen
       (if pay_paymentMethod params = FedNow \<and> pay_amount params > 0 then resolve None
        else andThen new_Date (\<lambda>d. andThen (formatDate d) (\<lambda>s. resolve (Some s))))
       (\<lambda>datePaid.
     andThen
       (RDS_executeStatement
          \<lparr>database = db, secretArn = secret, resourceArn = cluster,
           transactionId = pay_sqlTransactionId params, sql = ''INSERT ...'',
           parameters =
             [(''paymentId'', blobField (hexId (math_random w) (drawn w) 32)),
              (''payerId'', blobField (pay_payerId params)),
              (''payeeId'', blobField (pay_payeeId params)),
              (''developerId'', blobField (pay_developerId params)),
              (''paymentAmount'', doubleField (pay_amount params)),
              (''interactionTypeId'', doubleField (pay_interactionTypeId params)),
              (''paymentMethod'', doubleField (pay_paymentMethod params)),
              (''paymentStatus'',
                 doubleField
                   (if pay_paymentMethod params \<noteq> FedNow \<or> pay_amount params = 0
                    then COMPLETE else PENDING)),
              (''datePaid'',
                 nullableStringField datePaid
                   (pay_paymentMethod params = FedNow \<and> pay_amount params > 0))]\<rparr>)
       (\<lambda>_. resolve (hexId (math_random w) (drawn w) 32)))))) ?w1"
    unfolding insertPayment_db_def
    by (simp add: andThen_Inr [OF parse_ok [of InsertPaymentParamsSchema params, OF assms(1)]]
        andThen_Inr [OF callGenId_genId])
  also have "\<dots> = (let ident = hexId (math_random w) (drawn w) 32;
          c = paymentCall (process_env w) params ident (paymentDatePaid params w)
      in (case rds_response w (rds_log w @ [c]) of
            Some e \<Rightarrow> Inl (StoreError e) | None \<Rightarrow> Inr ident,
          w\<lparr>drawn := drawn w + 32,
            reads := reads w
              + (if pay_paymentMethod params = FedNow \<and> pay_amount params > 0 then 0 else 2),
            rds_log := rds_log w @ [c]\<rparr>))"
    unfolding writer_tail [OF c1]
    by (simp add: andThen_def resolve_def new_Date_def formatDate_eq RDS_executeStatement_def
        rds_send_eq paymentCall_def paymentDatePaid_def Let_def split: option.splits)
  finally show ?thesis .
qed

lemma insertLedgerEntry_db_sent:
  assumes "InsertLedgerEntryParamsSchema [] params = []" and "configured w"
  shows "insertLedgerEntry_db genId params w =
     (let ident = hexId (math_random w) (drawn w) 32;
          c = ledgerCall (process_env w) params ident
      in (case rds_response w (rds_log w @ [c]) of
            Some e \<Rightarrow> Inl (StoreError e) | None \<Rightarrow> Inr ident,
          w\<lparr>drawn := drawn w + 32, rds_log := rds_log w @ [c]\<rparr>))"
proof -
  let ?w1 = "w\<lparr>drawn := drawn w + 32\<rparr>"
  have c1: "configured ?w1" using assms(2) by simp
  show ?thesis
    unfolding insertLedgerEntry_db_def
    by (simp add: andThen_Inr [OF parse_ok [of InsertLedgerEntryParamsSchema params, OF assms(1)]]
        andThen_Inr [OF callGenId_genId] writer_tail [OF c1] RDS_executeStatement_def andThen_rds_send_resolve ledgerCall_def
        Let_def)
qed

lemma insertFedNowPayment_db_sent:
  assumes "InsertFedNowPaymentParamsSchema [] params = []" and "configured w"
  shows "insertFedNowPayment_db genId params w =
     (let ident = hexId (math_random w) (drawn w) 32;
          c = fedNowCall (process_env w) params ident
      in (case rds_response w (rds_log w @ [c]) of
            Some e \<Rightarrow> Inl (StoreError e) | None \<Rightarrow> Inr ident,
          w\<lparr>drawn := drawn w + 32, rds_log := rds_log w @ [c]\<rparr>))"
proof -
  let ?w1 = "w\<lparr>drawn := drawn w + 32\<rparr>"
  have c1: "configured ?w1" using assms(2) by simp
  show ?thesis
    unfolding insertFedNowPayment_db_def
    by (simp add: andThen_Inr [OF parse_ok [of InsertFedNowPaymentParamsSchema params, OF assms(1)]]
        andThen_Inr [OF callGenId_genId] writer_tail [OF c1] RDS_executeStatement_def
        andThen_rds_send_resolve fedNowCall_def Let_def)
qed


subsection \<open>The example inputs\<close>

lemma hexId_block:
  "(\<And>i. i < n \<Longrightarrow> rnd (k + i) = d) \<Longrightarrow>
     hexId rnd k n = replicate n (''0123456789abcdef'' ! unat d)"
proof (induction n)
  case 0
  then show ?case by (simp add: hexId_def)
next
  case (Suc n)
  have "hexId rnd k (Suc n) = hexId rnd k n @ toString16 (rnd (k + n))"
    by (simp add: hexId_def)
  with Suc show ?case by (simp add: toString16_def replicate_append_same)
qed

lemma example_ids:
  "hexId (math_random example_world) 0 32 = replicate 32 CHR ''1''"
  "hexId (math_random example_world) 32 32 = replicate 32 CHR ''2''"
  "hexId (math_random example_world) 64 32 = replicate 32 CHR ''3''"
  "hexId (math_random example_world) 96 32 = replicate 32 CHR ''4''"
  "hexId (math_random example_world) 128 32 = replicate 32 CHR ''5''"
  by (subst hexId_block [where d = 1], simp add: example_world_def, simp,
      subst hexId_block [where d = 2], simp add: example_world_def, simp,
      subst hexId_block [where d = 3], simp add: example_world_def, simp,
      subst hexId_block [where d = 4], simp add: example_world_def, simp,
      subst hexId_block [where d = 5], simp add: example_world_def, simp)

lemma example_configured: "configured example_world"
  by (simp add: configured_def example_world_def)

lemma example_valid: "ExecuteStandardPTOperationsParamsSchema [] example_params = []"
  by (simp add: bundle_valid_iff example_params_def FedNow_def)

lemma digit_in: "digit n \<in> set ''0123456789''"
  unfolding digit_def by (rule nth_mem) simp

lemma digit_neq [simp]: "digit n \<noteq> CHR ''T''"
  using digit_in [of n] by auto

lemma timestamp_format_render:
  assumes "0 \<le> utcFullYear d" and "utcFullYear d \<le> 9999"
  shows "timestamp_format (replace CHR ''T'' CHR '' '' (slice0 19 (toISOString d)))"
  using assms digit_in
  by (simp add: timestamp_format_def toISOString_def isoYear_def pad2_def pad4_def pad3_def
      slice0_def del: set_simps)


subsection \<open>The calls of a run, however it ends\<close>

lemma run_unfold:
  "executeStandardPTOperations db p =
     andThen (parse ExecuteStandardPTOperationsParamsSchema p) (\<lambda>_.
     andThen (insertPayment db (paymentParamsOf p)) (\<lambda>paymentId.
     andThen
       (fedNowStep db p paymentId
          \<lparr>primaryPaymentID = Some paymentId, customerLedgerEntryID = None,
           pursTransactionID = None, primaryFedNowPaymentID = None,
           promotionLedgerEntryID = None\<rparr>) (\<lambda>idObj.
     andThen (insertLedgerEntry db (ledgerParamsOf p)) (\<lambda>ledgerId.
     andThen
       (promotionStep db p [ledgerId] (idObj\<lparr>customerLedgerEntryID := Some ledgerId\<rparr>))
       (\<lambda>(ledgerEntries, idObj).
     andThen
       (insertTransactionRecord db
          \<lparr>rec_ledgerEntries = ledgerEntries,
           rec_sqlTransactionId = sqlTransactionId p\<rparr>)
       (\<lambda>pursTransactionId.
     resolve (idObj\<lparr>pursTransactionID := Some pursTransactionId\<rparr>)))))))"
  by (simp add: executeStandardPTOperations_def paymentParamsOf_def ledgerParamsOf_def Let_def)

lemma fedNowStep_unfold:
  "fedNowGuard p \<Longrightarrow>
     fedNowStep db p paymentId idObj =
       andThen (insertFedNowPayment db (fedNowParamsOf p paymentId))
         (\<lambda>fedNowPaymentId. resolve (idObj\<lparr>primaryFedNowPaymentID := Some fedNowPaymentId\<rparr>))"
  by (simp add: fedNowStep_def fedNowGuard_def fedNowParamsOf_def Let_def)

lemma insertPromotionLedgerEntry_db_sent:
  assumes "InsertPromotionLedgerEntryParamsSchema [] params = []" and "configured w"
  shows "insertPromotionLedgerEntry_db genId params w =
     (let ident = hexId (math_random w) (drawn w) 32;
          c = promotionCall (process_env w) params ident
      in (case rds_response w (rds_log w @ [c]) of
            Some e \<Rightarrow> Inl (StoreError e) | None \<Rightarrow> Inr ident,
          w\<lparr>drawn := drawn w + 32, rds_log := rds_log w @ [c]\<rparr>))"
proof -
  let ?w1 = "w\<lparr>drawn := drawn w + 32\<rparr>"
  have c1: "configured ?w1" using assms(2) by simp
  show ?thesis
    unfolding insertPromotionLedgerEntry_db_def
    by (simp add: andThen_Inr
          [OF parse_ok [of InsertPromotionLedgerEntryParamsSchema params, OF assms(1)]]
        andThen_Inr [OF callGenId_genId] writer_tail [OF c1] RDS_executeStatement_def
        andThen_rds_send_resolve promotionCall_def Let_def)
qed

lemma insertTransactionRecord_db_sent:
  assumes "InsertTransactionRecordParamsSchema [] params = []" and "configured w"
  shows "insertTransactionRecord_db genId params w =
     (let ident = hexId (math_random w) (drawn w) 32;
          c = transactionRecordCall (process_env w) params ident
      in (case rds_response w (rds_log w @ [c]) of
            Some e \<Rightarrow> Inl (StoreError e) | None \<Rightarrow> Inr ident,
          w\<lparr>drawn := drawn w + 32, rds_log := rds_log w @ [c]\<rparr>))"
proof -
  let ?w1 = "w\<lparr>drawn := drawn w + 32\<rparr>"
  have c1: "configured ?w1" using assms(2) by simp
  show ?thesis
    unfolding insertTransactionRecord_db_def
    by (simp add: andThen_Inr
          [OF parse_ok [of InsertTransactionRecordParamsSchema params, OF assms(1)]]
        andThen_Inr [OF callGenId_genId] writer_tail [OF c1] RDS_batchExecuteStatement_def
        andThen_rds_send_resolve transactionRecordCall_def Let_def)
qed

lemma promotionStep_unfold:
  "promotionGuard p \<Longrightarrow>
     promotionStep db p les idObj =
       andThen (insertPromotionLedgerEntry db (promotionParamsOf p))
         (\<lambda>plid. resolve (les @ [plid], idObj\<lparr>promotionLedgerEntryID := Some plid\<rparr>))"
  by (auto simp: promotionStep_def promotionGuard_def promotionParamsOf_def Let_def
      split: option.splits)

lemma fedNowStep_skip: "\<not> fedNowGuard p \<Longrightarrow> fedNowStep db p paymentId idObj = resolve idObj"
  by (auto simp: fedNowStep_def fedNowGuard_def Let_def)

lemma promotionStep_skip:
  "\<not> promotionGuard p \<Longrightarrow> promotionStep db p les idObj = resolve (les, idObj)"
  by (auto simp: promotionStep_def promotionGuard_def Let_def split: option.splits)

lemma newCalls_log [simp]: "newCalls w (w'\<lparr>rds_log := rds_log w @ cs\<rparr>) = cs"
  by (simp add: newCalls_def)

lemma newCalls_drawn [simp]: "newCalls w (w'\<lparr>drawn := d\<rparr>) = newCalls w w'"
  by (simp add: newCalls_def)

lemma newCalls_reads [simp]: "newCalls w (w'\<lparr>reads := d\<rparr>) = newCalls w w'"
  by (simp add: newCalls_def)

lemma run_real_calls:
  assumes valid: "ExecuteStandardPTOperationsParamsSchema [] p = []" and conf: "configured w"
  shows "newCalls w (snd (executeStandardPTOperations (createDatabaseOperations genId) p w))
     = sentCalls (rds_response w) (rds_log w)
         (bundleCalls (process_env w) p (paymentDatePaid (paymentParamsOf p) w)
            (hexId (math_random w) (drawn w) 32)
            (hexId (math_random w) (drawn w + 32) 32)
            (hexId (math_random w) (drawn w + offsetLedger p) 32)
            (hexId (math_random w) (drawn w + offsetLedger p + 32) 32)
            (hexId (math_random w) (drawn w + offsetRecord p) 32))"
proof -
  note vs = payment_valid [OF valid] ledger_valid [OF valid] record_valid [OF valid]
  note sent = insertPayment_db_sent insertFedNowPayment_db_sent insertLedgerEntry_db_sent
    insertPromotionLedgerEntry_db_sent insertTransactionRecord_db_sent
  note defs = run_unfold createDatabaseOperations_def andThen_def resolve_def
    parse_ok [of ExecuteStandardPTOperationsParamsSchema, OF valid]
    bundleCalls_def offsetLedger_def offsetRecord_def Let_def add.assoc
  show ?thesis
  proof (cases "fedNowGuard p")
    case fg: True
    note fv = fedNow_valid [OF valid fg]
    show ?thesis
    proof (cases "promotionGuard p")
      case pg: True
      note pv = promotion_valid [OF valid pg]
      show ?thesis
        by (simp add: fg pg vs fv pv conf sent defs fedNowStep_unfold promotionStep_unfold
            split: option.splits)
    next
      case pg: False
      show ?thesis
        by (simp add: fg pg vs fv conf sent defs fedNowStep_unfold promotionStep_skip
            split: option.splits)
    qed
  next
    case fg: False
    show ?thesis
    proof (cases "promotionGuard p")
      case pg: True
      note pv = promotion_valid [OF valid pg]
      show ?thesis
        by (simp add: fg pg vs pv conf sent defs fedNowStep_skip promotionStep_unfold
            split: option.splits)
    next
      case pg: False
      show ?thesis
        by (simp add: fg pg vs conf sent defs fedNowStep_skip promotionStep_skip
            split: option.splits)
    qed
  qed
qed

lemma getEnv_chain_unconfigured:
  "\<not> configured w \<Longrightarrow>
     \<exists>e. andThen (getEnvVariable ''DATABASE'') (\<lambda>db.
          andThen (getEnvVariable ''SECRET_ARN'') (\<lambda>secret.
          andThen (getEnvVariable ''CLUSTER_ARN'') (\<lambda>cluster. k db secret cluster))) w
        = (Inl e, w)"
  by (auto simp: configured_def andThen_def getEnvVariable_def split: option.splits)

lemma insertPayment_db_unconfigured:
  assumes "\<not> configured w"
  shows "\<exists>e w1. insertPayment_db genId x w = (Inl e, w1) \<and> rds_log w1 = rds_log w"
proof (cases "InsertPaymentParamsSchema [] x = []")
  case False
  then show ?thesis
    by (simp add: insertPayment_db_def andThen_def parse_fail [of InsertPaymentParamsSchema])
next
  case True
  let ?w1 = "w\<lparr>drawn := drawn w + 32\<rparr>"
  have "\<not> configured ?w1" using assms by simp
  from getEnv_chain_unconfigured [OF this] show ?thesis
    unfolding insertPayment_db_def
    by (simp add: andThen_Inr [OF parse_ok [of InsertPaymentParamsSchema x, OF True]]
        andThen_Inr [OF callGenId_genId]) fastforce
qed

lemma newCalls_self [simp]: "newCalls w w = []"
  by (simp add: newCalls_def)

lemma run_real_sent:
  assumes "executeStandardPTOperations (createDatabaseOperations genId) p w = (r, w')"
  shows "newCalls w w' = []
     \<or> (ExecuteStandardPTOperationsParamsSchema [] p = [] \<and> configured w
        \<and> newCalls w w'
            = sentCalls (rds_response w) (rds_log w)
                (bundleCalls (process_env w) p (paymentDatePaid (paymentParamsOf p) w)
                   (hexId (math_random w) (drawn w) 32)
                   (hexId (math_random w) (drawn w + 32) 32)
                   (hexId (math_random w) (drawn w + offsetLedger p) 32)
                   (hexId (math_random w) (drawn w + offsetLedger p + 32) 32)
                   (hexId (math_random w) (drawn w + offsetRecord p) 32)))"
proof (cases "ExecuteStandardPTOperationsParamsSchema [] p = []")
  case False
  have "executeStandardPTOperations (createDatabaseOperations genId) p w
      = (Inl (ZodError (ExecuteStandardPTOperationsParamsSchema [] p)), w)"
    unfolding executeStandardPTOperations_def
    by (rule andThen_Inl)
      (rule parse_fail [of ExecuteStandardPTOperationsParamsSchema p, OF False])
  with assms show ?thesis by simp
next
  case valid: True
  show ?thesis
  proof (cases "configured w")
    case True
    from run_real_calls [OF valid True] assms valid True show ?thesis by simp
  next
    case False
    from insertPayment_db_unconfigured [OF False] obtain e w1 where
      "insertPayment_db genId (paymentParamsOf p) w = (Inl e, w1)" "rds_log w1 = rds_log w"
      by blast
    then have "executeStandardPTOperations (createDatabaseOperations genId) p w = (Inl e, w1)"
      by (simp add: run_unfold createDatabaseOperations_def andThen_def
          parse_ok [of ExecuteStandardPTOperationsParamsSchema, OF valid])
    with assms \<open>rds_log w1 = rds_log w\<close> show ?thesis by (auto simp: newCalls_def)
  qed
qed

text \<open>
  What is in a run's calls when they are the sent part of the planned ones.
\<close>

lemma sentCalls_fedNow:
  assumes "c \<in> set (sentCalls resp lg (bundleCalls env p dp pid fid lid plid tid))"
    and "isFedNowWrite c"
  shows "fedNowGuard p \<and> c = fedNowCall env (fedNowParamsOf p pid) fid
     \<and> resp (lg @ [paymentCall env (paymentParamsOf p) pid dp]) = None"
  using assms
  by (auto simp: bundleCalls_def isFedNowWrite_def paymentCall_def ledgerCall_def
      promotionCall_def transactionRecordCall_def split: if_splits option.splits)

lemma sentCalls_promotion:
  assumes "c \<in> set (sentCalls resp lg (bundleCalls env p dp pid fid lid plid tid))"
    and "isPromotionWrite c"
  shows "promotionGuard p \<and> c = promotionCall env (promotionParamsOf p) plid"
  using assms
  by (auto simp: bundleCalls_def isPromotionWrite_def paymentCall_def ledgerCall_def
      fedNowCall_def transactionRecordCall_def split: if_splits option.splits)

lemma sentCalls_batch:
  assumes "batchExecuteStatement b
             \<in> set (sentCalls resp lg (bundleCalls env p dp pid fid lid plid tid))"
  shows "sentCalls resp lg (bundleCalls env p dp pid fid lid plid tid)
           = bundleCalls env p dp pid fid lid plid tid
     \<and> batchExecuteStatement b
         = transactionRecordCall env
             \<lparr>rec_ledgerEntries = lid # (if promotionGuard p then [plid] else []),
              rec_sqlTransactionId = sqlTransactionId p\<rparr> tid"
  using assms
  by (auto simp: bundleCalls_def paymentCall_def fedNowCall_def ledgerCall_def
      promotionCall_def split: if_splits option.splits)


subsection \<open>Facts about the examples and the schemas\<close>

lemma card_payment_valid: "InsertPaymentParamsSchema [] card_payment = []"
  by (simp add: InsertPaymentParamsSchema_def card_payment_def z_number_def Card_def)

lemma render_example:
  "replace CHR ''T'' CHR '' '' (slice0 19 (toISOString (date_now example_world n)))
     = ''2023-12-28 20:49:'' @ pad2 (19 + n)"
  by (simp add: example_world_def toISOString_def isoYear_def pad2_def pad3_def pad4_def
      digit_def slice0_def)

lemma example_fields [simp]:
  "drawn example_world = 0" "reads example_world = 0" "rds_log example_world = []"
  "rds_response example_world l = None"
  by (simp_all add: example_world_def)

lemma card_payment_run:
  "insertPayment_db genId card_payment example_world =
     (Inr (replicate 32 CHR ''1''),
      example_world\<lparr>drawn := 32, reads := 2,
        rds_log := [paymentCall (process_env example_world) card_payment
                      (replicate 32 CHR ''1'') (Some ''2023-12-28 20:49:20'')]\<rparr>)"
proof -
  have dp: "paymentDatePaid card_payment example_world = Some ''2023-12-28 20:49:20''"
    by (simp add: paymentDatePaid_def render_example)
      (simp add: card_payment_def Card_def FedNow_def example_world_def pad2_def digit_def)
  show ?thesis
    by (simp add: insertPayment_db_sent [OF card_payment_valid example_configured] dp
        example_ids Let_def)
      (simp add: card_payment_def Card_def FedNow_def)
qed

lemma path_z_string_length:
  "map path (z_string_length n q s) = (if length s \<noteq> n then [q] else [])"
  by (simp add: z_string_length_def)

lemma path_z_number_nonnegative:
  "map path (z_number_nonnegative q x) = (if x < 0 then [q] else [])"
  by (simp add: z_number_nonnegative_def)

lemma path_z_nativeEnum:
  "map path (z_nativeEnum_PaymentMethod q x) = (if x \<noteq> FedNow \<and> x \<noteq> Card then [q] else [])"
  by (simp add: z_nativeEnum_PaymentMethod_def)

lemma path_z_optional:
  "map path (z_optional s q v) = (case v of None \<Rightarrow> [] | Some x \<Rightarrow> map path (s q x))"
  by (simp add: z_optional_def split: option.splits)

lemma bundle_paths:
  "map path (ExecuteStandardPTOperationsParamsSchema [] p) =
     (let u = userPurchaseInformation p in
      (if length (payeeId u) \<noteq> 32 then [[''userPurchaseInformation'', ''payeeId'']] else [])
      @ (if length (payerId u) \<noteq> 32 then [[''userPurchaseInformation'', ''payerId'']] else [])
      @ (case payerAccountId u of None \<Rightarrow> []
         | Some a \<Rightarrow>
             if length a \<noteq> 32 then [[''userPurchaseInformation'', ''payerAccountId'']] else [])
      @ (case payeeAccountId u of None \<Rightarrow> []
         | Some a \<Rightarrow>
             if length a \<noteq> 32 then [[''userPurchaseInformation'', ''payeeAccountId'']] else [])
      @ (if length (developerId u) \<noteq> 32
         then [[''userPurchaseInformation'', ''developerId'']] else [])
      @ (if amount u < 0 then [[''userPurchaseInformation'', ''amount'']] else [])
      @ (if paymentMethod u \<noteq> FedNow \<and> paymentMethod u \<noteq> Card
         then [[''userPurchaseInformation'', ''paymentMethod'']] else [])
      @ (case promoAmount (promotionInformation p) of None \<Rightarrow> []
         | Some a \<Rightarrow> if a < 0 then [[''promotionInformation'', ''promoAmount'']] else [])
      @ (if length (sqlTransactionId p) \<noteq> 32 then [[''sqlTransactionId'']] else []))"
  by (simp add: ExecuteStandardPTOperationsParamsSchema_def UserPurchaseInformationSchema_def
      PromotionInformationSchema_def z_number_def path_z_string_length
      path_z_number_nonnegative path_z_nativeEnum path_z_optional Let_def
      split: option.splits)

lemma invalid_issues:
  "ExecuteStandardPTOperationsParamsSchema [] invalid_params =
     [Issue (too_small_string 32) [''userPurchaseInformation'', ''payeeId''],
      Issue (too_small_string 32) [''userPurchaseInformation'', ''payerId''],
      Issue (too_small_string 32) [''userPurchaseInformation'', ''developerId''],
      Issue (too_small_number 0) [''userPurchaseInformation'', ''amount'']]"
  by (simp add: ExecuteStandardPTOperationsParamsSchema_def UserPurchaseInformationSchema_def
      PromotionInformationSchema_def z_string_length_def z_number_nonnegative_def z_number_def
      z_nativeEnum_PaymentMethod_def z_optional_def invalid_params_def Card_def)

lemma newCalls_append [simp]: "newCalls w (w\<lparr>drawn := d, reads := r, rds_log := rds_log w @ cs\<rparr>) = cs"
  by (simp add: newCalls_def)

lemma run_real_InrD:
  assumes "executeStandardPTOperations (createDatabaseOperations genId) p w = (Inr ids, w')"
  shows "\<exists>dp pid fid lid plid tid w1.
           newCalls w w' = bundleCalls (process_env w) p dp pid fid lid plid tid
         \<and> rds_log w' = rds_log w @ newCalls w w'
         \<and> insertPayment_db genId (paymentParamsOf p) w = (Inr pid, w1)
         \<and> ids = \<lparr>primaryPaymentID = Some pid, customerLedgerEntryID = Some lid,
                  pursTransactionID = Some tid,
                  primaryFedNowPaymentID = (if fedNowGuard p then Some fid else None),
                  promotionLedgerEntryID = (if promotionGuard p then Some plid else None)\<rparr>"
proof -
  from assms have valid: "ExecuteStandardPTOperationsParamsSchema [] p = []"
    and conf: "configured w"
    by (simp_all add: run_real_Inr_iff)
  let ?pid = "hexId (math_random w) (drawn w) 32"
  let ?fid = "hexId (math_random w) (drawn w + 32) 32"
  let ?lid = "hexId (math_random w) (drawn w + offsetLedger p) 32"
  let ?plid = "hexId (math_random w) (drawn w + offsetLedger p + 32) 32"
  let ?tid = "hexId (math_random w) (drawn w + offsetRecord p) 32"
  let ?dp = "paymentDatePaid (paymentParamsOf p) w"
  let ?calls = "bundleCalls (process_env w) p ?dp ?pid ?fid ?lid ?plid ?tid"
  from assms have acc: "accepted (rds_response w) (rds_log w) ?calls"
    and w': "w' = w\<lparr>drawn := drawn w + offsetRecord p + 32,
                    reads := reads w + (if pending p then 0 else 2),
                    rds_log := rds_log w @ ?calls\<rparr>"
    and ids: "ids = \<lparr>primaryPaymentID = Some ?pid, customerLedgerEntryID = Some ?lid,
                  pursTransactionID = Some ?tid,
                  primaryFedNowPaymentID = (if fedNowGuard p then Some ?fid else None),
                  promotionLedgerEntryID = (if promotionGuard p then Some ?plid else None)\<rparr>"
    by (simp_all add: run_real_Inr_iff Let_def)
  have new: "newCalls w w' = ?calls" unfolding w' by simp
  have log: "rds_log w' = rds_log w @ newCalls w w'" unfolding new unfolding w' by simp
  from acc have "rds_response w (rds_log w @ [paymentCall (process_env w) (paymentParamsOf p) ?pid ?dp])
      = None"
    by (simp add: bundleCalls_def)
  then have "\<exists>w1. insertPayment_db genId (paymentParamsOf p) w = (Inr ?pid, w1)"
    by (simp add: insertPayment_db_sent [OF payment_valid [OF valid] conf] Let_def)
  with new log ids show ?thesis by blast
qed

lemma bundleCalls_fedNow:
  "filter isFedNowWrite (bundleCalls env p dp pid fid lid plid tid)
     = (if fedNowGuard p then [fedNowCall env (fedNowParamsOf p pid) fid] else [])"
  by (simp add: bundleCalls_def isFedNowWrite_def paymentCall_def fedNowCall_def ledgerCall_def
      promotionCall_def transactionRecordCall_def)

lemma bundleCalls_promotion:
  "filter isPromotionWrite (bundleCalls env p dp pid fid lid plid tid)
     = (if promotionGuard p then [promotionCall env (promotionParamsOf p) plid] else [])"
  by (simp add: bundleCalls_def isPromotionWrite_def paymentCall_def fedNowCall_def
      ledgerCall_def promotionCall_def transactionRecordCall_def)

lemma bundleCalls_nth_1:
  "fedNowGuard p \<Longrightarrow>
     bundleCalls env p dp pid fid lid plid tid ! 1 = fedNowCall env (fedNowParamsOf p pid) fid"
  by (simp add: bundleCalls_def)

lemma bundleCalls_last:
  "last (bundleCalls env p dp pid fid lid plid tid)
     = transactionRecordCall env
         \<lparr>rec_ledgerEntries = lid # (if promotionGuard p then [plid] else []),
          rec_sqlTransactionId = sqlTransactionId p\<rparr> tid"
  by (simp add: bundleCalls_def)

lemma bundleCalls_tail:
  "\<exists>pre. bundleCalls env p dp pid fid lid plid tid =
     pre @ (if promotionGuard p
            then [ledgerCall env (ledgerParamsOf p) lid,
                  promotionCall env (promotionParamsOf p) plid]
            else [ledgerCall env (ledgerParamsOf p) lid])
     @ [transactionRecordCall env
         \<lparr>rec_ledgerEntries = lid # (if promotionGuard p then [plid] else []),
          rec_sqlTransactionId = sqlTransactionId p\<rparr> tid]"
  by (simp add: bundleCalls_def)

lemma list_ex_filter: "list_ex P xs \<longleftrightarrow> filter P xs \<noteq> []"
  by (induction xs) auto

lemma accepted_never: "(\<And>l. resp l = None) \<Longrightarrow> accepted resp lg cs"
  by (induction cs arbitrary: lg) simp_all

lemma example_guards:
  "fedNowGuard example_params" "promotionGuard example_params" "pending example_params"
  by (simp_all add: fedNowGuard_def promotionGuard_def pending_def example_params_def)

lemma example_run:
  "executeStandardPTOperations (createDatabaseOperations genId) example_params example_world
     = (Inr example_result, example_world\<lparr>drawn := 160, rds_log := example_calls\<rparr>)"
proof -
  have dp: "paymentDatePaid (paymentParamsOf example_params) example_world = None"
    by (simp add: paymentDatePaid_def paymentParamsOf_def example_params_def)
  have upd: "example_world\<lparr>drawn := 160, reads := 0, rds_log := cs\<rparr>
      = example_world\<lparr>drawn := 160, rds_log := cs\<rparr>" for cs
    by (simp add: example_world_def)
  show ?thesis
    by (simp add: run_real_Inr_iff example_valid example_configured example_guards
        offsetLedger_def offsetRecord_def example_ids dp accepted_never example_calls_def
        example_result_def upd Let_def)
qed


lemma failing_fields [simp]:
  "drawn failing_world = 0" "reads failing_world = 0" "rds_log failing_world = []"
  "math_random failing_world = math_random example_world"
  "process_env failing_world = process_env example_world"
  "rds_response failing_world l
     = (if length l = 3 then Some ''Database operation failed'' else None)"
  "configured failing_world"
  using example_configured by (simp_all add: failing_world_def configured_def)

lemma failing_run:
  "executeStandardPTOperations (createDatabaseOperations genId) example_params failing_world
     = (Inl (StoreError ''Database operation failed''),
        failing_world\<lparr>drawn := 96, rds_log := failing_calls\<rparr>)"
proof -
  let ?db = "createDatabaseOperations genId"
  let ?w1 = "failing_world\<lparr>drawn := 32,
      rds_log := [paymentCall (process_env example_world) (paymentParamsOf example_params)
        (replicate 32 CHR ''1'') None]\<rparr>"
  let ?w2 = "failing_world\<lparr>drawn := 64,
      rds_log := [paymentCall (process_env example_world) (paymentParamsOf example_params)
        (replicate 32 CHR ''1'') None,
      fedNowCall (process_env example_world)
        (fedNowParamsOf example_params (replicate 32 CHR ''1'')) (replicate 32 CHR ''2'')]\<rparr>"
  have dp: "paymentDatePaid (paymentParamsOf example_params) failing_world = None"
    by (simp add: paymentDatePaid_def paymentParamsOf_def example_params_def)
  have pend: "pay_paymentMethod (paymentParamsOf example_params) = FedNow
      \<and> 0 < pay_amount (paymentParamsOf example_params)"
    by (simp add: paymentParamsOf_def example_params_def)
  have upd: "w\<lparr>drawn := d, reads := reads w, rds_log := cs\<rparr> = w\<lparr>drawn := d, rds_log := cs\<rparr>"
    for w :: world and d cs
    by simp
  have s1: "insertPayment ?db (paymentParamsOf example_params) failing_world
      = (Inr (replicate 32 CHR ''1''), ?w1)"
    by (simp add: createDatabaseOperations_def
        insertPayment_db_sent [OF payment_valid [OF example_valid]] dp pend example_ids Let_def)
  have c1: "configured ?w1" by simp
  have s2: "insertFedNowPayment ?db (fedNowParamsOf example_params (replicate 32 CHR ''1'')) ?w1
      = (Inr (replicate 32 CHR ''2''), ?w2)"
    by (simp add: createDatabaseOperations_def
        insertFedNowPayment_db_sent
          [OF fedNow_valid [OF example_valid example_guards(1)] c1]
        example_ids Let_def)
  have c2: "configured ?w2" by simp
  have s3: "insertLedgerEntry ?db (ledgerParamsOf example_params) ?w2
      = (Inl (StoreError ''Database operation failed''),
         failing_world\<lparr>drawn := 96, rds_log := failing_calls\<rparr>)"
    by (simp add: createDatabaseOperations_def
        insertLedgerEntry_db_sent [OF ledger_valid [OF example_valid] c2]
        example_ids Let_def failing_calls_def)
  show ?thesis
    unfolding run_unfold fedNowStep_unfold [OF example_guards(1)]
    by (simp add: andThen_def parse_ok [of ExecuteStandardPTOperationsParamsSchema, OF example_valid]
        s1 s2 s3 resolve_def)
qed

lemma newCalls_of_log: "rds_log w' = rds_log w @ new \<Longrightarrow> newCalls w w' = new"
  by (simp add: newCalls_def)

lemma filter_none: "list_all (\<lambda>c. \<not> P c) xs \<Longrightarrow> filter P xs = []"
  by (induction xs) auto

lemma no_fedNow_write:
  assumes "executeStandardPTOperations (createDatabaseOperations genId) p w = (r, w')"
    and "\<not> fedNowGuard p"
  shows "filter isFedNowWrite (newCalls w w') = []"
proof -
  have "tracks (\<lambda>c. \<not> isFedNowWrite c)
      (executeStandardPTOperations (createDatabaseOperations genId) p)"
    by (rule tracks_run) (simp_all add: isFedNowWrite_def assms(2))
  from tracksD [OF this assms(1)] obtain new where
    "rds_log w' = rds_log w @ new" "list_all (\<lambda>c. \<not> isFedNowWrite c) new"
    by blast
  then show ?thesis by (simp add: newCalls_of_log filter_none)
qed

lemma no_promotion_write:
  assumes "executeStandardPTOperations (createDatabaseOperations genId) p w = (r, w')"
    and "\<not> promotionGuard p"
  shows "filter isPromotionWrite (newCalls w w') = []"
proof -
  have "tracks (\<lambda>c. \<not> isPromotionWrite c)
      (executeStandardPTOperations (createDatabaseOperations genId) p)"
    by (rule tracks_run) (simp_all add: isPromotionWrite_def assms(2))
  from tracksD [OF this assms(1)] obtain new where
    "rds_log w' = rds_log w @ new" "list_all (\<lambda>c. \<not> isPromotionWrite c) new"
    by blast
  then show ?thesis by (simp add: newCalls_of_log filter_none)
qed

lemma example_newCalls [simp]:
  "newCalls example_world (example_world\<lparr>drawn := 160, rds_log := example_calls\<rparr>)
     = example_calls"
  by (simp add: newCalls_def)

lemma example_fedNow_call:
  "example_calls ! 1 \<in> set example_calls" "isFedNowWrite (example_calls ! 1)"
  by (simp_all add: example_calls_def bundleCalls_def example_guards isFedNowWrite_def
      fedNowCall_def)

lemma Buffer_from_hex_replicate:
  "hexval c = Some v \<Longrightarrow>
     Buffer_from_hex (replicate (2 * n) c) = replicate n (of_nat (16 * v + v))"
  by (induction n) simp_all

lemma example_promotion_call:
  "example_calls ! 3 \<in> set example_calls" "isPromotionWrite (example_calls ! 3)"
  by (simp_all add: example_calls_def bundleCalls_def example_guards isPromotionWrite_def
      promotionCall_def)

section \<open>The claims\<close>

subsection \<open>C1: the FedNow payment is written exactly under its guard\<close>

text \<open>
  Claim C1. The guard \<open>fedNowGuard\<close> is the condition of the source: the payment
  method is \<open>FedNow\<close>, the amount is positive and both account ids are present. Take
  any run of the orchestrator over the writers of \<open>createDatabaseOperations\<close>, from
  any world and however it ends. Every FedNow statement among its calls (a statement
  with a parameter \<open>fedNowPaymentId\<close>) was sent under the guard, after
  \<open>insertPayment\<close> had returned an id, and carries that id as its \<open>paymentId\<close> and
  the account ids of the input; so when the guard fails there is none. When the guard
  holds and the run returns, exactly one call of the run is a FedNow statement, the
  second one.
\<close>

theorem C1_settlement_write_iff_guard:
  assumes "executeStandardPTOperations (createDatabaseOperations genId) p w = (r, w')"
  shows "(fedNowGuard p \<longleftrightarrow>
            paymentMethod (userPurchaseInformation p) = FedNow
            \<and> amount (userPurchaseInformation p) > 0
            \<and> payerAccountId (userPurchaseInformation p) \<noteq> None
            \<and> payeeAccountId (userPurchaseInformation p) \<noteq> None)
     \<and> (\<forall>c \<in> set (newCalls w w'). isFedNowWrite c \<longrightarrow>
          fedNowGuard p
          \<and> (\<exists>pid w1.
                insertPayment (createDatabaseOperations genId) (paymentParamsOf p) w
                  = (Inr pid, w1)
                \<and> paramOf c ''paymentId'' = Some (blobField pid))
          \<and> paramOf c ''payerAccountId''
              = Some (stringField (the (payerAccountId (userPurchaseInformation p))))
          \<and> paramOf c ''payeeAccountId''
              = Some (stringField (the (payeeAccountId (userPurchaseInformation p)))))
     \<and> (\<not> fedNowGuard p \<longrightarrow> filter isFedNowWrite (newCalls w w') = [])
     \<and> (\<forall>ids. r = Inr ids \<and> fedNowGuard p \<longrightarrow>
          filter isFedNowWrite (newCalls w w') = [newCalls w w' ! 1])"
proof (intro conjI ballI allI impI)
  show "fedNowGuard p \<longleftrightarrow>
            paymentMethod (userPurchaseInformation p) = FedNow
            \<and> amount (userPurchaseInformation p) > 0
            \<and> payerAccountId (userPurchaseInformation p) \<noteq> None
            \<and> payeeAccountId (userPurchaseInformation p) \<noteq> None"
    by (simp add: fedNowGuard_def Let_def)
next
  assume "\<not> fedNowGuard p"
  with assms show "filter isFedNowWrite (newCalls w w') = []" by (rule no_fedNow_write)
next
  fix ids assume "r = Inr ids \<and> fedNowGuard p"
  then have r: "r = Inr ids" and g: "fedNowGuard p" by simp_all
  from run_real_InrD [OF assms [unfolded r]] obtain dp pid fid lid plid tid w1 where
    new: "newCalls w w' = bundleCalls (process_env w) p dp pid fid lid plid tid"
    by blast
  show "filter isFedNowWrite (newCalls w w') = [newCalls w w' ! 1]"
    by (simp only: new bundleCalls_nth_1 [OF g]) (simp add: bundleCalls_fedNow g)
next
  fix c assume c: "c \<in> set (newCalls w w')" and f: "isFedNowWrite c"
  let ?pid = "hexId (math_random w) (drawn w) 32"
  let ?dp = "paymentDatePaid (paymentParamsOf p) w"
  let ?plan = "bundleCalls (process_env w) p ?dp ?pid
                   (hexId (math_random w) (drawn w + 32) 32)
                   (hexId (math_random w) (drawn w + offsetLedger p) 32)
                   (hexId (math_random w) (drawn w + offsetLedger p + 32) 32)
                   (hexId (math_random w) (drawn w + offsetRecord p) 32)"
  from run_real_sent [OF assms] c
  have valid: "ExecuteStandardPTOperationsParamsSchema [] p = []" and conf: "configured w"
    and new: "newCalls w w' = sentCalls (rds_response w) (rds_log w) ?plan"
    by auto
  from sentCalls_fedNow [OF c [unfolded new] f]
  have g: "fedNowGuard p"
    and ceq: "c = fedNowCall (process_env w) (fedNowParamsOf p ?pid)
                    (hexId (math_random w) (drawn w + 32) 32)"
    and acc: "rds_response w (rds_log w @ [paymentCall (process_env w) (paymentParamsOf p)
                ?pid ?dp]) = None"
    by simp_all
  from acc have pay: "\<exists>w1. insertPayment (createDatabaseOperations genId) (paymentParamsOf p) w
      = (Inr ?pid, w1)"
    by (simp add: createDatabaseOperations_def
        insertPayment_db_sent [OF payment_valid [OF valid] conf] Let_def)
  show "fedNowGuard p" by (rule g)
  show "\<exists>pid w1.
          insertPayment (createDatabaseOperations genId) (paymentParamsOf p) w = (Inr pid, w1)
          \<and> paramOf c ''paymentId'' = Some (blobField pid)"
    using pay by (auto simp: ceq paramOf_def fedNowCall_def fedNowParamsOf_def Let_def)
  show "paramOf c ''payerAccountId''
          = Some (stringField (the (payerAccountId (userPurchaseInformation p))))"
    by (simp add: ceq paramOf_def fedNowCall_def fedNowParamsOf_def Let_def)
  show "paramOf c ''payeeAccountId''
          = Some (stringField (the (payeeAccountId (userPurchaseInformation p))))"
    by (simp add: ceq paramOf_def fedNowCall_def fedNowParamsOf_def Let_def)
qed


theorem C1_settlement_write_iff_guard_witness:
  "executeStandardPTOperations (createDatabaseOperations genId) example_params example_world
     = (Inr example_result, example_world\<lparr>drawn := 160, rds_log := example_calls\<rparr>)
   \<and> fedNowGuard example_params
   \<and> example_calls ! 1 \<in> set example_calls
   \<and> isFedNowWrite (example_calls ! 1)
   \<and> filter isFedNowWrite example_calls = [example_calls ! 1]
   \<and> (\<exists>pid w1.
        insertPayment (createDatabaseOperations genId) (paymentParamsOf example_params)
          example_world = (Inr pid, w1)
        \<and> paramOf (example_calls ! 1) ''paymentId'' = Some (blobField pid))
   \<and> paramOf (example_calls ! 1) ''payerAccountId''
       = Some (stringField (replicate 32 CHR ''e''))
   \<and> paramOf (example_calls ! 1) ''payeeAccountId''
       = Some (stringField (replicate 32 CHR ''f''))"
proof -
  have acc: "the (payerAccountId (userPurchaseInformation example_params))
      = replicate 32 CHR ''e''"
    "the (payeeAccountId (userPurchaseInformation example_params)) = replicate 32 CHR ''f''"
    by (simp_all add: example_params_def)
  note c1 = C1_settlement_write_iff_guard [OF example_run, simplified example_newCalls]
  from c1 have each: "\<forall>c \<in> set example_calls. isFedNowWrite c \<longrightarrow>
          fedNowGuard example_params
          \<and> (\<exists>pid w1.
                insertPayment (createDatabaseOperations genId) (paymentParamsOf example_params)
                  example_world = (Inr pid, w1)
                \<and> paramOf c ''paymentId'' = Some (blobField pid))
          \<and> paramOf c ''payerAccountId''
              = Some (stringField (the (payerAccountId (userPurchaseInformation example_params))))
          \<and> paramOf c ''payeeAccountId''
              = Some (stringField (the (payeeAccountId (userPurchaseInformation example_params))))"
    by blast
  from c1 example_guards(1)
  have one: "filter isFedNowWrite example_calls = [example_calls ! 1]"
    by blast
  from each [rule_format, OF example_fedNow_call] one example_run example_guards(1)
    example_fedNow_call
  show ?thesis by (simp add: acc)
qed

subsection \<open>C2: the status and the date of the payment write\<close>

text \<open>
  Claim C2. Take any call of \<open>insertPayment\<close> on an input that passes its schema,
  from any world and however it ends. Every statement it sends has \<open>paymentStatus\<close>
  \<open>COMPLETE\<close> if the payment method is not \<open>FedNow\<close> or the amount is \<open>0\<close>, and
  \<open>PENDING\<close> otherwise. When the status is \<open>COMPLETE\<close> its \<open>datePaid\<close> has a
  string value, with \<open>isNull\<close> false, and the string is the rendering of the clock
  reading taken at the write, of the form \<open>YYYY-MM-DD HH:MM:SS\<close> (the year of the
  reading has four digits); when the status is \<open>PENDING\<close> its \<open>datePaid\<close> has no
  string value and \<open>isNull\<close> is true. Where the three environment variables are
  set, the writer sends exactly one statement.
\<close>

theorem C2_payment_status_and_datePaid:
  assumes "InsertPaymentParamsSchema [] params = []"
    and "insertPayment_db genId params w = (r, w')"
    and "0 \<le> utcFullYear (date_now w (Suc (reads w)))"
    and "utcFullYear (date_now w (Suc (reads w))) \<le> 9999"
  shows "(configured w \<longrightarrow> length (newCalls w w') = 1)
     \<and> (\<forall>c \<in> set (newCalls w w').
          paramOf c ''paymentStatus''
            = Some (doubleField
                (if pay_paymentMethod params \<noteq> FedNow \<or> pay_amount params = 0
                 then COMPLETE else PENDING))
          \<and> (if pay_paymentMethod params \<noteq> FedNow \<or> pay_amount params = 0
              then \<exists>s. paramOf c ''datePaid'' = Some (nullableStringField (Some s) False)
                     \<and> s = replace CHR ''T'' CHR '' ''
                             (slice0 19 (toISOString (date_now w (Suc (reads w)))))
                     \<and> timestamp_format s
              else paramOf c ''datePaid'' = Some (nullableStringField None True)))"
proof (cases "configured w")
  case False
  from insertPayment_db_unconfigured [OF False, of params] assms(2)
  have "newCalls w w' = []" by (auto simp: newCalls_def)
  with False show ?thesis by simp
next
  case conf: True
  let ?c = "paymentCall (process_env w) params (hexId (math_random w) (drawn w) 32)
              (paymentDatePaid params w)"
  have nonneg: "0 \<le> pay_amount params"
    using assms(1) by (simp add: InsertPaymentParamsSchema_def)
  have new: "newCalls w w' = [?c]"
    using assms(2) by (auto simp: insertPayment_db_sent [OF assms(1) conf] Let_def)
  have status: "paramOf ?c ''paymentStatus''
         = Some (doubleField
             (if pay_paymentMethod params \<noteq> FedNow \<or> pay_amount params = 0
              then COMPLETE else PENDING))"
    by (simp add: paramOf_def paymentCall_def)
  have date_pending: "paramOf ?c ''datePaid'' = Some (nullableStringField None True)"
    if "pay_paymentMethod params = FedNow \<and> pay_amount params > 0"
    using that by (simp add: paramOf_def paymentCall_def paymentDatePaid_def)
  have date_complete: "paramOf ?c ''datePaid''
      = Some (nullableStringField
          (Some (replace CHR ''T'' CHR '' ''
                   (slice0 19 (toISOString (date_now w (Suc (reads w))))))) False)"
    if "\<not> (pay_paymentMethod params = FedNow \<and> pay_amount params > 0)"
    using that by (auto simp: paramOf_def paymentCall_def paymentDatePaid_def)
  have pending_iff: "(pay_paymentMethod params = FedNow \<and> pay_amount params > 0)
      \<longleftrightarrow> \<not> (pay_paymentMethod params \<noteq> FedNow \<or> pay_amount params = 0)"
    using nonneg by auto
  have fmt: "timestamp_format
      (replace CHR ''T'' CHR '' '' (slice0 19 (toISOString (date_now w (Suc (reads w))))))"
    by (rule timestamp_format_render [OF assms(3,4)])
  have date: "if pay_paymentMethod params \<noteq> FedNow \<or> pay_amount params = 0
         then \<exists>s. paramOf ?c ''datePaid'' = Some (nullableStringField (Some s) False)
                \<and> s = replace CHR ''T'' CHR '' ''
                        (slice0 19 (toISOString (date_now w (Suc (reads w)))))
                \<and> timestamp_format s
         else paramOf ?c ''datePaid'' = Some (nullableStringField None True)"
  proof (cases "pay_paymentMethod params \<noteq> FedNow \<or> pay_amount params = 0")
    case True
    with pending_iff have "\<not> (pay_paymentMethod params = FedNow \<and> pay_amount params > 0)"
      by simp
    from date_complete [OF this] fmt True show ?thesis by simp
  next
    case False
    with pending_iff have "pay_paymentMethod params = FedNow \<and> pay_amount params > 0"
      by simp
    from date_pending [OF this] False show ?thesis by simp
  qed
  from status date show ?thesis by (simp add: new)
qed

theorem C2_payment_status_and_datePaid_witness:
  "InsertPaymentParamsSchema [] card_payment = []
   \<and> insertPayment_db genId card_payment example_world =
       (Inr (replicate 32 CHR ''1''),
        example_world\<lparr>drawn := 32, reads := 2,
          rds_log := [paymentCall (process_env example_world) card_payment
                        (replicate 32 CHR ''1'') (Some ''2023-12-28 20:49:20'')]\<rparr>)
   \<and> 0 \<le> utcFullYear (date_now example_world (Suc (reads example_world)))
   \<and> utcFullYear (date_now example_world (Suc (reads example_world))) \<le> 9999
   \<and> pay_paymentMethod card_payment \<noteq> FedNow
   \<and> configured example_world
   \<and> paramOf (paymentCall (process_env example_world) card_payment
                (replicate 32 CHR ''1'') (Some ''2023-12-28 20:49:20'')) ''paymentStatus''
       = Some (doubleField COMPLETE)
   \<and> paramOf (paymentCall (process_env example_world) card_payment
                (replicate 32 CHR ''1'') (Some ''2023-12-28 20:49:20'')) ''datePaid''
       = Some (nullableStringField (Some ''2023-12-28 20:49:20'') False)
   \<and> timestamp_format ''2023-12-28 20:49:20''"
proof -
  have y1: "0 \<le> utcFullYear (date_now example_world (Suc (reads example_world)))"
    and y2: "utcFullYear (date_now example_world (Suc (reads example_world))) \<le> 9999"
    by (simp_all add: example_world_def)
  have m: "pay_paymentMethod card_payment \<noteq> FedNow"
    by (simp add: card_payment_def Card_def FedNow_def)
  have r: "replace CHR ''T'' CHR '' '' (slice0 19 (toISOString (date_now example_world
      (Suc 0)))) = ''2023-12-28 20:49:20''"
    by (simp add: render_example) (simp add: pad2_def digit_def)
  let ?c = "paymentCall (process_env example_world) card_payment
                (replicate 32 CHR ''1'') (Some ''2023-12-28 20:49:20'')"
  have new: "newCalls example_world (example_world\<lparr>drawn := 32, reads := 2,
          rds_log := [?c]\<rparr>) = [?c]"
    by (simp add: newCalls_def)
  from C2_payment_status_and_datePaid [OF card_payment_valid card_payment_run y1 y2]
  have "paramOf ?c ''paymentStatus'' = Some (doubleField COMPLETE)
    \<and> paramOf ?c ''datePaid'' = Some (nullableStringField (Some ''2023-12-28 20:49:20'') False)
    \<and> timestamp_format ''2023-12-28 20:49:20''"
    using m by (simp add: new r)
  with card_payment_valid card_payment_run example_configured y1 y2 m show ?thesis by simp
qed


subsection \<open>C3: the promotion entry and the batch of the transaction record\<close>

text \<open>
  Claim C3. The guard \<open>promotionGuard\<close> is the condition of the source: the promotion
  amount is present and positive. Take any run of the orchestrator over the writers
  of \<open>createDatabaseOperations\<close>, from any world and however it ends. When the guard
  fails, none of its calls is a promotion statement (a statement with the parameter
  list of \<open>insertPromotionLedgerEntry\<close>). Every batch statement among its calls is
  the last call of the run and comes right after the statement of the primary ledger
  entry and, when the guard holds, the promotion statement. It has one parameter set
  for each of these ledger entries, in this order: two sets, for the primary ledger
  id and then the promotion ledger id, when the guard holds, and the single set of the
  primary ledger id when it does not. Every set carries the same transaction-record
  id, generated by \<open>insertTransactionRecord\<close>; when the run returns, that id and the
  ledger ids are the ones of the result. When the run returns, one of its calls is a
  promotion statement if and only if the guard holds, and its last call is a batch
  statement.
\<close>

theorem C3_promotion_write_and_record_batch:
  assumes "executeStandardPTOperations (createDatabaseOperations genId) p w = (r, w')"
  shows "(promotionGuard p \<longleftrightarrow>
            (\<exists>a. promoAmount (promotionInformation p) = Some a \<and> a > 0))
     \<and> (\<not> promotionGuard p \<longrightarrow> filter isPromotionWrite (newCalls w w') = [])
     \<and> (\<forall>b. batchExecuteStatement b \<in> set (newCalls w w') \<longrightarrow>
          (\<exists>pre lc lid tid.
             paramOf lc ''ledgerId'' = Some (blobField lid)
             \<and> \<not> isPromotionWrite lc
             \<and> (\<forall>ids. r = Inr ids \<longrightarrow>
                  customerLedgerEntryID ids = Some lid \<and> pursTransactionID ids = Some tid)
             \<and> (if promotionGuard p
                 then \<exists>plid pc.
                        newCalls w w' = pre @ [lc, pc, batchExecuteStatement b]
                        \<and> isPromotionWrite pc
                        \<and> paramOf pc ''ledgerId'' = Some (blobField plid)
                        \<and> (\<forall>ids. r = Inr ids \<longrightarrow> promotionLedgerEntryID ids = Some plid)
                        \<and> parameterSets b =
                            [[(''transactionId'', blobField tid),
                              (''ledgerId'', blobField lid)],
                             [(''transactionId'', blobField tid),
                              (''ledgerId'', blobField plid)]]
                 else newCalls w w' = pre @ [lc, batchExecuteStatement b]
                        \<and> (\<forall>ids. r = Inr ids \<longrightarrow> promotionLedgerEntryID ids = None)
                        \<and> parameterSets b =
                            [[(''transactionId'', blobField tid),
                              (''ledgerId'', blobField lid)]])))
     \<and> (\<forall>ids. r = Inr ids \<longrightarrow>
          (list_ex isPromotionWrite (newCalls w w') \<longleftrightarrow> promotionGuard p)
          \<and> (\<exists>b. last (newCalls w w') = batchExecuteStatement b
                \<and> batchExecuteStatement b \<in> set (newCalls w w')))"
proof (intro conjI allI impI)
  show "promotionGuard p \<longleftrightarrow> (\<exists>a. promoAmount (promotionInformation p) = Some a \<and> a > 0)"
    by (simp add: promotionGuard_def split: option.splits)
next
  assume "\<not> promotionGuard p"
  with assms show "filter isPromotionWrite (newCalls w w') = []" by (rule no_promotion_write)
next
  fix ids assume r: "r = Inr ids"
  from run_real_InrD [OF assms [unfolded r]] obtain dp pid fid lid plid tid w1 where
    new: "newCalls w w' = bundleCalls (process_env w) p dp pid fid lid plid tid"
    by blast
  show "list_ex isPromotionWrite (newCalls w w') \<longleftrightarrow> promotionGuard p"
    by (simp add: list_ex_filter new bundleCalls_promotion)
  have "last (newCalls w w') \<in> set (newCalls w w')"
    by (rule last_in_set) (simp add: new bundleCalls_def)
  then show "\<exists>b. last (newCalls w w') = batchExecuteStatement b
                \<and> batchExecuteStatement b \<in> set (newCalls w w')"
    by (auto simp: new bundleCalls_last transactionRecordCall_def)
next
  fix b assume b: "batchExecuteStatement b \<in> set (newCalls w w')"
  let ?env = "process_env w"
  let ?lid = "hexId (math_random w) (drawn w + offsetLedger p) 32"
  let ?plid = "hexId (math_random w) (drawn w + offsetLedger p + 32) 32"
  let ?tid = "hexId (math_random w) (drawn w + offsetRecord p) 32"
  let ?plan = "bundleCalls ?env p (paymentDatePaid (paymentParamsOf p) w)
                   (hexId (math_random w) (drawn w) 32)
                   (hexId (math_random w) (drawn w + 32) 32) ?lid ?plid ?tid"
  from run_real_sent [OF assms] b
  have sent: "newCalls w w' = sentCalls (rds_response w) (rds_log w) ?plan"
    by auto
  from sentCalls_batch [OF b [unfolded sent]]
  have new: "newCalls w w' = ?plan"
    and beq: "batchExecuteStatement b
         = transactionRecordCall ?env
             \<lparr>rec_ledgerEntries = ?lid # (if promotionGuard p then [?plid] else []),
              rec_sqlTransactionId = sqlTransactionId p\<rparr> ?tid"
    by (simp_all add: sent)
  from bundleCalls_tail [of ?env p "paymentDatePaid (paymentParamsOf p) w"
      "hexId (math_random w) (drawn w) 32" "hexId (math_random w) (drawn w + 32) 32"
      ?lid ?plid ?tid]
  obtain pre where
    tail: "?plan =
     pre @ (if promotionGuard p
            then [ledgerCall ?env (ledgerParamsOf p) ?lid,
                  promotionCall ?env (promotionParamsOf p) ?plid]
            else [ledgerCall ?env (ledgerParamsOf p) ?lid])
     @ [batchExecuteStatement b]"
    unfolding beq by blast
  let ?lc = "ledgerCall ?env (ledgerParamsOf p) ?lid"
  let ?pc = "promotionCall ?env (promotionParamsOf p) ?plid"
  have lc1: "paramOf ?lc ''ledgerId'' = Some (blobField ?lid)"
    by (simp add: paramOf_def ledgerCall_def)
  have lc2: "\<not> isPromotionWrite ?lc"
    by (simp add: isPromotionWrite_def ledgerCall_def)
  have pc1: "isPromotionWrite ?pc"
    by (simp add: isPromotionWrite_def promotionCall_def)
  have pc2: "paramOf ?pc ''ledgerId'' = Some (blobField ?plid)"
    by (simp add: paramOf_def promotionCall_def)
  have ids: "customerLedgerEntryID ids = Some ?lid \<and> pursTransactionID ids = Some ?tid
      \<and> promotionLedgerEntryID ids = (if promotionGuard p then Some ?plid else None)"
    if "r = Inr ids" for ids
    using assms [unfolded that] by (simp add: run_real_Inr_iff Let_def)
  have sets: "parameterSets b =
      map (\<lambda>ledgerEntry. [(''transactionId'', blobField ?tid),
                           (''ledgerId'', blobField ledgerEntry)])
        (?lid # (if promotionGuard p then [?plid] else []))"
    using beq by (simp add: transactionRecordCall_def)
  show "\<exists>pre lc lid tid.
             paramOf lc ''ledgerId'' = Some (blobField lid)
             \<and> \<not> isPromotionWrite lc
             \<and> (\<forall>ids. r = Inr ids \<longrightarrow>
                  customerLedgerEntryID ids = Some lid \<and> pursTransactionID ids = Some tid)
             \<and> (if promotionGuard p
                 then \<exists>plid pc.
                        newCalls w w' = pre @ [lc, pc, batchExecuteStatement b]
                        \<and> isPromotionWrite pc
                        \<and> paramOf pc ''ledgerId'' = Some (blobField plid)
                        \<and> (\<forall>ids. r = Inr ids \<longrightarrow> promotionLedgerEntryID ids = Some plid)
                        \<and> parameterSets b =
                            [[(''transactionId'', blobField tid),
                              (''ledgerId'', blobField lid)],
                             [(''transactionId'', blobField tid),
                              (''ledgerId'', blobField plid)]]
                 else newCalls w w' = pre @ [lc, batchExecuteStatement b]
                        \<and> (\<forall>ids. r = Inr ids \<longrightarrow> promotionLedgerEntryID ids = None)
                        \<and> parameterSets b =
                            [[(''transactionId'', blobField tid),
                              (''ledgerId'', blobField lid)]])"
  proof (cases "promotionGuard p")
    case True
    show ?thesis
      apply (rule exI [of _ pre], rule exI [of _ ?lc], rule exI [of _ ?lid],
          rule exI [of _ ?tid])
      apply (simp only: True if_True)
      apply (intro conjI lc1 lc2 allI impI)
        apply (simp add: ids)
       apply (simp add: ids)
      apply (rule exI [of _ ?plid], rule exI [of _ ?pc])
      using True tail ids by (simp add: new pc1 pc2 sets)
  next
    case False
    show ?thesis
      apply (rule exI [of _ pre], rule exI [of _ ?lc], rule exI [of _ ?lid],
          rule exI [of _ ?tid])
      apply (simp only: False if_False)
      apply (intro conjI lc1 lc2 allI impI)
          apply (simp add: ids)
         apply (simp add: ids)
      using False tail ids by (simp_all add: new sets)
  qed
qed


theorem C3_promotion_write_and_record_batch_witness:
  "executeStandardPTOperations (createDatabaseOperations genId) example_params example_world
     = (Inr example_result, example_world\<lparr>drawn := 160, rds_log := example_calls\<rparr>)
   \<and> promotionGuard example_params
   \<and> list_ex isPromotionWrite example_calls
   \<and> (\<exists>b pre lc pc.
         batchExecuteStatement b \<in> set example_calls
         \<and> example_calls = pre @ [lc, pc, batchExecuteStatement b]
         \<and> paramOf lc ''ledgerId'' = Some (blobField (replicate 32 CHR ''3''))
         \<and> \<not> isPromotionWrite lc
         \<and> isPromotionWrite pc
         \<and> paramOf pc ''ledgerId'' = Some (blobField (replicate 32 CHR ''4''))
         \<and> parameterSets b =
             [[(''transactionId'', blobField (replicate 32 CHR ''5'')),
               (''ledgerId'', blobField (replicate 32 CHR ''3''))],
              [(''transactionId'', blobField (replicate 32 CHR ''5'')),
               (''ledgerId'', blobField (replicate 32 CHR ''4''))]])"
proof -
  note c3 = C3_promotion_write_and_record_batch [OF example_run, simplified example_newCalls]
  from c3 example_guards(2) have ex: "list_ex isPromotionWrite example_calls"
    by blast
  from c3 obtain b where b: "batchExecuteStatement b \<in> set example_calls"
    by blast
  from c3 b example_guards(2) obtain pre lc lid tid plid pc where
    lc: "paramOf lc ''ledgerId'' = Some (blobField lid)" "\<not> isPromotionWrite lc"
    and ids: "customerLedgerEntryID example_result = Some lid"
      "pursTransactionID example_result = Some tid"
      "promotionLedgerEntryID example_result = Some plid"
    and calls: "example_calls = pre @ [lc, pc, batchExecuteStatement b]"
    and pc: "isPromotionWrite pc" "paramOf pc ''ledgerId'' = Some (blobField plid)"
    and sets: "parameterSets b =
             [[(''transactionId'', blobField tid), (''ledgerId'', blobField lid)],
              [(''transactionId'', blobField tid), (''ledgerId'', blobField plid)]]"
    by (simp add: example_guards) blast
  from ids have "lid = replicate 32 CHR ''3''" "tid = replicate 32 CHR ''5''"
    "plid = replicate 32 CHR ''4''"
    by (simp_all add: example_result_def)
  with lc calls pc sets b have "\<exists>b pre lc pc.
         batchExecuteStatement b \<in> set example_calls
         \<and> example_calls = pre @ [lc, pc, batchExecuteStatement b]
         \<and> paramOf lc ''ledgerId'' = Some (blobField (replicate 32 CHR ''3''))
         \<and> \<not> isPromotionWrite lc
         \<and> isPromotionWrite pc
         \<and> paramOf pc ''ledgerId'' = Some (blobField (replicate 32 CHR ''4''))
         \<and> parameterSets b =
             [[(''transactionId'', blobField (replicate 32 CHR ''5'')),
               (''ledgerId'', blobField (replicate 32 CHR ''3''))],
              [(''transactionId'', blobField (replicate 32 CHR ''5'')),
               (''ledgerId'', blobField (replicate 32 CHR ''4''))]]"
    by blast
  with example_run example_guards(2) ex show ?thesis by blast
qed

subsection \<open>C4: the payer of the promotion ledger entry\<close>

text \<open>
  Claim C4 says that the promotion ledger entry is written with the \<open>developerId\<close> of
  the purchase as its \<open>payerId\<close>. The orchestrator passes \<open>payerId\<close> as \<open>payerId\<close> and
  the writer writes it as it comes. In the example run the payer is \<open>bbbb\<dots>\<close> and the
  developer is \<open>cccc\<dots>\<close>: the \<open>payerId\<close> of the promotion statement is the buffer of
  the bytes \<open>0xbb\<close>, and the buffer of the developer id is another.
\<close>

theorem C4_promotion_payer_is_not_the_developer:
  "executeStandardPTOperations (createDatabaseOperations genId) example_params example_world
     = (Inr example_result, example_world\<lparr>drawn := 160, rds_log := example_calls\<rparr>)
   \<and> ExecuteStandardPTOperationsParamsSchema [] example_params = []
   \<and> promoAmount (promotionInformation example_params) = Some 10
   \<and> developerId (userPurchaseInformation example_params) = replicate 32 CHR ''c''
   \<and> filter isPromotionWrite example_calls = [example_calls ! 3]
   \<and> paramOf (example_calls ! 3) ''payerId'' = Some (blobField (replicate 32 CHR ''b''))
   \<and> blobField (replicate 32 CHR ''b'') \<noteq> blobField (replicate 32 CHR ''c'')"
proof -
  have nth: "example_calls ! 3 = promotionCall (process_env example_world)
      (promotionParamsOf example_params) (replicate 32 CHR ''4'')"
    by (simp add: example_calls_def bundleCalls_def example_guards)
  have f: "filter isPromotionWrite example_calls = [example_calls ! 3]"
    unfolding nth by (simp add: example_calls_def bundleCalls_promotion example_guards)
  have payer: "paramOf (example_calls ! 3) ''payerId'' = Some (blobField (replicate 32 CHR ''b''))"
    unfolding nth
    by (simp add: paramOf_def promotionCall_def promotionParamsOf_def example_params_def)
  have hb: "hexval CHR ''b'' = Some 11" and hc: "hexval CHR ''c'' = Some 12"
    by (simp_all add: hexval_def)
  have b: "Buffer_from_hex (replicate 32 CHR ''b'') = replicate 16 187"
    using Buffer_from_hex_replicate [OF hb, of 16] by simp
  have c: "Buffer_from_hex (replicate 32 CHR ''c'') = replicate 16 204"
    using Buffer_from_hex_replicate [OF hc, of 16] by simp
  have ne: "blobField (replicate 32 CHR ''b'') \<noteq> blobField (replicate 32 CHR ''c'')"
    by (simp add: blobField_def b c)
  have "promoAmount (promotionInformation example_params) = Some 10"
    "developerId (userPurchaseInformation example_params) = replicate 32 CHR ''c''"
    by (simp_all add: example_params_def)
  with example_run example_valid f payer ne show ?thesis by simp
qed

text \<open>
  Claim C4, amended. Take any run of the orchestrator over the writers of
  \<open>createDatabaseOperations\<close>, on an input with a promotion amount \<open>a\<close>. Every
  promotion statement among the calls of the run, however the run ends, was sent
  because \<open>a\<close> is positive, and its \<open>payerId\<close> is the \<open>payerId\<close> of the purchase
  input, its \<open>payeeId\<close> the \<open>payeeId\<close>, its \<open>developerId\<close> the \<open>developerId\<close> and
  its \<open>amount\<close> is \<open>a\<close>. When \<open>a\<close> is positive and the run returns, exactly one
  call of the run is a promotion statement, and its \<open>ledgerId\<close> is the id returned as
  \<open>promotionLedgerEntryID\<close>.
\<close>

theorem C4_promotion_entry_payer_is_the_payer:
  assumes "executeStandardPTOperations (createDatabaseOperations genId) p w = (r, w')"
    and "promoAmount (promotionInformation p) = Some a"
  shows "(\<forall>c \<in> set (newCalls w w'). isPromotionWrite c \<longrightarrow>
            a > 0
            \<and> paramOf c ''payerId'' = Some (blobField (payerId (userPurchaseInformation p)))
            \<and> paramOf c ''payeeId'' = Some (blobField (payeeId (userPurchaseInformation p)))
            \<and> paramOf c ''developerId''
                = Some (blobField (developerId (userPurchaseInformation p)))
            \<and> paramOf c ''amount'' = Some (doubleField a))
     \<and> (\<forall>ids. r = Inr ids \<and> a > 0 \<longrightarrow>
          (\<exists>c plid. filter isPromotionWrite (newCalls w w') = [c]
             \<and> promotionLedgerEntryID ids = Some plid
             \<and> paramOf c ''ledgerId'' = Some (blobField plid)))"
proof (intro conjI ballI allI impI)
  fix ids assume "r = Inr ids \<and> a > 0"
  then have r: "r = Inr ids" and "a > 0" by simp_all
  then have g: "promotionGuard p" using assms(2) by (simp add: promotionGuard_def)
  from run_real_InrD [OF assms(1) [unfolded r]] obtain dp pid fid lid plid tid w1 where
    new: "newCalls w w' = bundleCalls (process_env w) p dp pid fid lid plid tid"
    and ids: "ids = \<lparr>primaryPaymentID = Some pid, customerLedgerEntryID = Some lid,
                  pursTransactionID = Some tid,
                  primaryFedNowPaymentID = (if fedNowGuard p then Some fid else None),
                  promotionLedgerEntryID = (if promotionGuard p then Some plid else None)\<rparr>"
    by blast
  let ?c = "promotionCall (process_env w) (promotionParamsOf p) plid"
  show "\<exists>c plid. filter isPromotionWrite (newCalls w w') = [c]
             \<and> promotionLedgerEntryID ids = Some plid
             \<and> paramOf c ''ledgerId'' = Some (blobField plid)"
    apply (rule exI [of _ ?c], rule exI [of _ plid])
    by (simp add: new bundleCalls_promotion g ids paramOf_def promotionCall_def)
next
  fix c assume c: "c \<in> set (newCalls w w')" and f: "isPromotionWrite c"
  let ?plid = "hexId (math_random w) (drawn w + offsetLedger p + 32) 32"
  let ?plan = "bundleCalls (process_env w) p (paymentDatePaid (paymentParamsOf p) w)
                   (hexId (math_random w) (drawn w) 32)
                   (hexId (math_random w) (drawn w + 32) 32)
                   (hexId (math_random w) (drawn w + offsetLedger p) 32) ?plid
                   (hexId (math_random w) (drawn w + offsetRecord p) 32)"
  from run_real_sent [OF assms(1)] c
  have new: "newCalls w w' = sentCalls (rds_response w) (rds_log w) ?plan"
    by auto
  from sentCalls_promotion [OF c [unfolded new] f]
  have g: "promotionGuard p"
    and ceq: "c = promotionCall (process_env w) (promotionParamsOf p) ?plid"
    by simp_all
  from g assms(2) show "a > 0" by (simp add: promotionGuard_def)
  show "paramOf c ''payerId'' = Some (blobField (payerId (userPurchaseInformation p)))"
    by (simp add: ceq paramOf_def promotionCall_def promotionParamsOf_def Let_def)
  show "paramOf c ''payeeId'' = Some (blobField (payeeId (userPurchaseInformation p)))"
    by (simp add: ceq paramOf_def promotionCall_def promotionParamsOf_def Let_def)
  show "paramOf c ''developerId'' = Some (blobField (developerId (userPurchaseInformation p)))"
    by (simp add: ceq paramOf_def promotionCall_def promotionParamsOf_def Let_def)
  show "paramOf c ''amount'' = Some (doubleField a)"
    by (simp add: ceq paramOf_def promotionCall_def promotionParamsOf_def assms(2) Let_def)
qed

theorem C4_promotion_entry_payer_is_the_payer_witness:
  "executeStandardPTOperations (createDatabaseOperations genId) example_params example_world
     = (Inr example_result, example_world\<lparr>drawn := 160, rds_log := example_calls\<rparr>)
   \<and> promoAmount (promotionInformation example_params) = Some 10
   \<and> example_calls ! 3 \<in> set example_calls
   \<and> isPromotionWrite (example_calls ! 3)
   \<and> paramOf (example_calls ! 3) ''payerId'' = Some (blobField (replicate 32 CHR ''b''))
   \<and> paramOf (example_calls ! 3) ''payeeId'' = Some (blobField (replicate 32 CHR ''a''))
   \<and> paramOf (example_calls ! 3) ''developerId'' = Some (blobField (replicate 32 CHR ''c''))
   \<and> paramOf (example_calls ! 3) ''amount'' = Some (doubleField 10)
   \<and> (\<exists>c. filter isPromotionWrite example_calls = [c]
         \<and> paramOf c ''ledgerId'' = Some (blobField (replicate 32 CHR ''4'')))"
proof -
  have pa: "promoAmount (promotionInformation example_params) = Some 10"
    by (simp add: example_params_def)
  have u: "payerId (userPurchaseInformation example_params) = replicate 32 CHR ''b''"
    "payeeId (userPurchaseInformation example_params) = replicate 32 CHR ''a''"
    "developerId (userPurchaseInformation example_params) = replicate 32 CHR ''c''"
    by (simp_all add: example_params_def)
  note c4 = C4_promotion_entry_payer_is_the_payer
    [OF example_run pa, simplified example_newCalls]
  from c4 have each: "\<forall>c \<in> set example_calls. isPromotionWrite c \<longrightarrow>
            (0 :: real) < 10
            \<and> paramOf c ''payerId''
                = Some (blobField (payerId (userPurchaseInformation example_params)))
            \<and> paramOf c ''payeeId''
                = Some (blobField (payeeId (userPurchaseInformation example_params)))
            \<and> paramOf c ''developerId''
                = Some (blobField (developerId (userPurchaseInformation example_params)))
            \<and> paramOf c ''amount'' = Some (doubleField 10)"
    by blast
  from c4 have one: "\<exists>c. filter isPromotionWrite example_calls = [c]
         \<and> paramOf c ''ledgerId'' = Some (blobField (replicate 32 CHR ''4''))"
    by (simp add: example_result_def)
  from each [rule_format, OF example_promotion_call] one example_run pa
    example_promotion_call
  show ?thesis by (simp add: u)
qed


subsection \<open>C5: an invalid bundle is rejected before any write\<close>

text \<open>
  Claim C5. When the bundle input fails the bundle schema, the orchestrator, with any
  \<open>db\<close> whatever, rejects with the \<open>ZodError\<close> that carries the whole list of
  issues of the schema, and the world is the one it started in: nothing was sent to the
  data service, no id was generated. The list names every offending property: the
  path of a property is among the paths of the issues exactly when the property
  violates its rule, for each of the nine properties the schema constrains.
\<close>

theorem C5_invalid_bundle_rejected_before_any_write:
  assumes "ExecuteStandardPTOperationsParamsSchema [] p \<noteq> []"
  shows "executeStandardPTOperations db p w
           = (Inl (ZodError (ExecuteStandardPTOperationsParamsSchema [] p)), w)
    \<and> ([''userPurchaseInformation'', ''payeeId'']
            \<in> set (map path (ExecuteStandardPTOperationsParamsSchema [] p))
          \<longleftrightarrow> length (payeeId (userPurchaseInformation p)) \<noteq> 32)
    \<and> ([''userPurchaseInformation'', ''payerId'']
            \<in> set (map path (ExecuteStandardPTOperationsParamsSchema [] p))
          \<longleftrightarrow> length (payerId (userPurchaseInformation p)) \<noteq> 32)
    \<and> ([''userPurchaseInformation'', ''payerAccountId'']
            \<in> set (map path (ExecuteStandardPTOperationsParamsSchema [] p))
          \<longleftrightarrow> (case payerAccountId (userPurchaseInformation p) of
                 None \<Rightarrow> False | Some a \<Rightarrow> length a \<noteq> 32))
    \<and> ([''userPurchaseInformation'', ''payeeAccountId'']
            \<in> set (map path (ExecuteStandardPTOperationsParamsSchema [] p))
          \<longleftrightarrow> (case payeeAccountId (userPurchaseInformation p) of
                 None \<Rightarrow> False | Some a \<Rightarrow> length a \<noteq> 32))
    \<and> ([''userPurchaseInformation'', ''developerId'']
            \<in> set (map path (ExecuteStandardPTOperationsParamsSchema [] p))
          \<longleftrightarrow> length (developerId (userPurchaseInformation p)) \<noteq> 32)
    \<and> ([''userPurchaseInformation'', ''amount'']
            \<in> set (map path (ExecuteStandardPTOperationsParamsSchema [] p))
          \<longleftrightarrow> amount (userPurchaseInformation p) < 0)
    \<and> ([''userPurchaseInformation'', ''paymentMethod'']
            \<in> set (map path (ExecuteStandardPTOperationsParamsSchema [] p))
          \<longleftrightarrow> paymentMethod (userPurchaseInformation p) \<noteq> FedNow
              \<and> paymentMethod (userPurchaseInformation p) \<noteq> Card)
    \<and> ([''promotionInformation'', ''promoAmount'']
            \<in> set (map path (ExecuteStandardPTOperationsParamsSchema [] p))
          \<longleftrightarrow> (case promoAmount (promotionInformation p) of
                 None \<Rightarrow> False | Some a \<Rightarrow> a < 0))
    \<and> ([''sqlTransactionId'']
            \<in> set (map path (ExecuteStandardPTOperationsParamsSchema [] p))
          \<longleftrightarrow> length (sqlTransactionId p) \<noteq> 32)"
proof (intro conjI)
  show "executeStandardPTOperations db p w
           = (Inl (ZodError (ExecuteStandardPTOperationsParamsSchema [] p)), w)"
    unfolding executeStandardPTOperations_def
    by (rule andThen_Inl)
      (rule parse_fail [of ExecuteStandardPTOperationsParamsSchema p, OF assms])
qed (simp_all add: bundle_paths Let_def split: option.splits)

theorem C5_invalid_bundle_rejected_before_any_write_witness:
  "ExecuteStandardPTOperationsParamsSchema [] invalid_params \<noteq> []
   \<and> executeStandardPTOperations (createDatabaseOperations genId) invalid_params example_world
       = (Inl (ZodError
            [Issue (too_small_string 32) [''userPurchaseInformation'', ''payeeId''],
             Issue (too_small_string 32) [''userPurchaseInformation'', ''payerId''],
             Issue (too_small_string 32) [''userPurchaseInformation'', ''developerId''],
             Issue (too_small_number 0) [''userPurchaseInformation'', ''amount'']]),
          example_world)"
proof -
  have hyp: "ExecuteStandardPTOperationsParamsSchema [] invalid_params \<noteq> []"
    by (simp add: invalid_issues)
  from C5_invalid_bundle_rejected_before_any_write [OF hyp] hyp show ?thesis
    by (simp add: invalid_issues)
qed

subsection \<open>C6: an error of the store ends the bundle\<close>

text \<open>
  Claim C6. Take any run of the orchestrator over the writers of
  \<open>createDatabaseOperations\<close>, from any world and on any input. The log of the data
  service after the run is the log before it followed by the calls of the run. If the
  service raised an error \<open>e\<close> on one of these calls, then the run is rejected with
  that very error (so no \<open>IdObject\<close> is returned) and the call is the last one of the
  log: no later write was sent.
\<close>

theorem C6_store_error_ends_the_bundle:
  assumes "executeStandardPTOperations (createDatabaseOperations genId) p w = (r, w')"
  shows "\<exists>new. rds_log w' = rds_log w @ new
           \<and> (\<forall>k<length new. \<forall>e.
                 rds_response w (rds_log w @ take (Suc k) new) = Some e
                 \<longrightarrow> r = Inl (StoreError e) \<and> Suc k = length new)"
  using tracks_run_any [of p, unfolded tracks_def, rule_format, of w] assms
  by auto

theorem C6_store_error_ends_the_bundle_witness:
  "executeStandardPTOperations (createDatabaseOperations genId) example_params failing_world
     = (Inl (StoreError ''Database operation failed''),
        failing_world\<lparr>drawn := 96, rds_log := failing_calls\<rparr>)
   \<and> rds_log (failing_world\<lparr>drawn := 96, rds_log := failing_calls\<rparr>)
       = rds_log failing_world @ failing_calls
   \<and> length failing_calls = 3
   \<and> rds_response failing_world (rds_log failing_world @ take 3 failing_calls)
       = Some ''Database operation failed''"
proof -
  from C6_store_error_ends_the_bundle [OF failing_run]
  obtain new where
    new: "rds_log (failing_world\<lparr>drawn := 96, rds_log := failing_calls\<rparr>)
            = rds_log failing_world @ new"
    and stop: "\<And>k e. k < length new \<Longrightarrow>
        rds_response failing_world (rds_log failing_world @ take (Suc k) new) = Some e \<Longrightarrow>
        (Inl (StoreError ''Database operation failed'') :: error + IdObject)
          = Inl (StoreError e) \<and> Suc k = length new"
    by blast
  from new have eq: "new = failing_calls" by simp
  have len: "2 < length new" by (simp add: eq failing_calls_def)
  have resp: "rds_response failing_world (rds_log failing_world @ take (Suc 2) new)
      = Some ''Database operation failed''"
    by (simp add: eq failing_calls_def)
  from stop [OF len resp] have "Suc 2 = length failing_calls" by (simp add: eq)
  with failing_run resp eq show ?thesis by simp
qed


subsection \<open>C7: the result mirrors the ids the writers returned\<close>

text \<open>
  Claim C7. Whatever the \<open>db\<close>, when the orchestrator returns an \<open>IdObject\<close> its
  \<open>primaryPaymentID\<close>, \<open>customerLedgerEntryID\<close> and \<open>pursTransactionID\<close> are not
  \<open>null\<close> and are the ids that \<open>insertPayment\<close>, \<open>insertLedgerEntry\<close> and
  \<open>insertTransactionRecord\<close> returned, each writer called in the world the step
  before left. \<open>primaryFedNowPaymentID\<close> is present, and is the id
  \<open>insertFedNowPayment\<close> returned, when the FedNow guard holds, and is absent when
  it does not (the writer is then not called: the world is passed on as it is);
  likewise \<open>promotionLedgerEntryID\<close> and the promotion guard.
\<close>

theorem C7_result_mirrors_returned_ids:
  assumes "executeStandardPTOperations db p w = (Inr ids, w')"
  shows "\<exists>pid w1 w2 lid w3 w4 tid.
      insertPayment db (paymentParamsOf p) w = (Inr pid, w1)
      \<and> primaryPaymentID ids = Some pid
      \<and> (if fedNowGuard p
          then \<exists>fid. insertFedNowPayment db (fedNowParamsOf p pid) w1 = (Inr fid, w2)
                 \<and> primaryFedNowPaymentID ids = Some fid
          else w2 = w1 \<and> primaryFedNowPaymentID ids = None)
      \<and> insertLedgerEntry db (ledgerParamsOf p) w2 = (Inr lid, w3)
      \<and> customerLedgerEntryID ids = Some lid
      \<and> (if promotionGuard p
          then \<exists>plid. insertPromotionLedgerEntry db (promotionParamsOf p) w3 = (Inr plid, w4)
                 \<and> promotionLedgerEntryID ids = Some plid
                 \<and> insertTransactionRecord db
                      \<lparr>rec_ledgerEntries = [lid, plid],
                       rec_sqlTransactionId = sqlTransactionId p\<rparr> w4 = (Inr tid, w')
          else w4 = w3 \<and> promotionLedgerEntryID ids = None
                 \<and> insertTransactionRecord db
                      \<lparr>rec_ledgerEntries = [lid],
                       rec_sqlTransactionId = sqlTransactionId p\<rparr> w4 = (Inr tid, w'))
      \<and> pursTransactionID ids = Some tid"
proof -
  let ?ids0 = "\<lparr>primaryPaymentID = None, customerLedgerEntryID = None,
      pursTransactionID = None, primaryFedNowPaymentID = None,
      promotionLedgerEntryID = None\<rparr>"
  from assms obtain pid w1 ids2 w2 lid w3 les ids4 w4 tid where
    pay: "insertPayment db (paymentParamsOf p) w = (Inr pid, w1)"
    and fed: "fedNowStep db p pid (?ids0\<lparr>primaryPaymentID := Some pid\<rparr>) w1 = (Inr ids2, w2)"
    and led: "insertLedgerEntry db (ledgerParamsOf p) w2 = (Inr lid, w3)"
    and pro: "promotionStep db p [lid] (ids2\<lparr>customerLedgerEntryID := Some lid\<rparr>) w3
                = (Inr (les, ids4), w4)"
    and tr: "insertTransactionRecord db
               \<lparr>rec_ledgerEntries = les, rec_sqlTransactionId = sqlTransactionId p\<rparr> w4
             = (Inr tid, w')"
    and ids: "ids = ids4\<lparr>pursTransactionID := Some tid\<rparr>"
    unfolding run_Inr_iff by auto
  have fed': "if fedNowGuard p
      then \<exists>fid. insertFedNowPayment db (fedNowParamsOf p pid) w1 = (Inr fid, w2)
             \<and> primaryFedNowPaymentID ids2 = Some fid
      else w2 = w1 \<and> primaryFedNowPaymentID ids2 = None"
    using fed by (auto simp: fedNowStep_Inr_iff split: if_splits)
  have ids2: "primaryPaymentID ids2 = Some pid" "promotionLedgerEntryID ids2 = None"
    using fed by (auto simp: fedNowStep_Inr_iff split: if_splits)
  have pro': "if promotionGuard p
      then \<exists>plid. insertPromotionLedgerEntry db (promotionParamsOf p) w3 = (Inr plid, w4)
             \<and> promotionLedgerEntryID ids4 = Some plid \<and> les = [lid, plid]
      else w4 = w3 \<and> promotionLedgerEntryID ids4 = None \<and> les = [lid]"
    using pro ids2 by (auto simp: promotionStep_Inr_iff split: if_splits)
  have ids4: "primaryPaymentID ids4 = primaryPaymentID ids2"
    "primaryFedNowPaymentID ids4 = primaryFedNowPaymentID ids2"
    "customerLedgerEntryID ids4 = Some lid"
    using pro by (auto simp: promotionStep_Inr_iff split: if_splits)
  show ?thesis
    apply (rule exI [of _ pid], rule exI [of _ w1], rule exI [of _ w2], rule exI [of _ lid],
        rule exI [of _ w3], rule exI [of _ w4], rule exI [of _ tid])
    using pay led tr fed' pro' ids2 ids4 by (auto simp: ids split: if_splits)
qed

theorem C7_result_mirrors_returned_ids_witness:
  "executeStandardPTOperations (createDatabaseOperations genId) example_params example_world
     = (Inr example_result, example_world\<lparr>drawn := 160, rds_log := example_calls\<rparr>)
   \<and> fedNowGuard example_params \<and> promotionGuard example_params
   \<and> (\<exists>pid w1 w2 lid w3 w4 tid.
        insertPayment (createDatabaseOperations genId) (paymentParamsOf example_params)
          example_world = (Inr pid, w1)
        \<and> primaryPaymentID example_result = Some pid
        \<and> (\<exists>fid. insertFedNowPayment (createDatabaseOperations genId)
                    (fedNowParamsOf example_params pid) w1 = (Inr fid, w2)
               \<and> primaryFedNowPaymentID example_result = Some fid)
        \<and> insertLedgerEntry (createDatabaseOperations genId) (ledgerParamsOf example_params) w2
            = (Inr lid, w3)
        \<and> customerLedgerEntryID example_result = Some lid
        \<and> (\<exists>plid. insertPromotionLedgerEntry (createDatabaseOperations genId)
                     (promotionParamsOf example_params) w3 = (Inr plid, w4)
               \<and> promotionLedgerEntryID example_result = Some plid
               \<and> insertTransactionRecord (createDatabaseOperations genId)
                    \<lparr>rec_ledgerEntries = [lid, plid],
                     rec_sqlTransactionId = sqlTransactionId example_params\<rparr> w4
                  = (Inr tid, example_world\<lparr>drawn := 160, rds_log := example_calls\<rparr>))
        \<and> pursTransactionID example_result = Some tid)"
  using C7_result_mirrors_returned_ids [OF example_run] example_run example_guards
  by simp

subsection \<open>C8: the bundle schema checks lengths, not characters\<close>

text \<open>
  Claim C8 says that the validator rejects an id that is not thirty-two hexadecimal
  characters. The schema is \<open>z.string().length(32)\<close> for each of them: an id of
  thirty-two characters that are not hexadecimal digits passes, here with the ids
  \<open>gggg\<dots>\<close>, \<open>hhhh\<dots>\<close>, \<open>iiii\<dots>\<close> and the scope token \<open>kkkk\<dots>\<close>.
\<close>

theorem C8_nonhex_ids_pass_validation:
  "hexval CHR ''g'' = None
   \<and> payerId (userPurchaseInformation nonhex_params) = replicate 32 CHR ''g''
   \<and> parse ExecuteStandardPTOperationsParamsSchema nonhex_params example_world
       = (Inr nonhex_params, example_world)"
  by (simp add: hexval_def parse_ok bundle_valid_iff nonhex_params_def Card_def)

text \<open>
  Claim C8, amended. The validator rejects any input whose \<open>payerId\<close>, \<open>payeeId\<close>
  or \<open>developerId\<close> is not exactly thirty-two characters long, and any scope token
  that is not exactly thirty-two characters long: the orchestrator then rejects with
  the \<open>ZodError\<close> and leaves the world as it was. Which characters the strings are
  made of is not looked at: an input passes exactly when the lengths are right, the
  amounts are not negative and the payment method is one of the two.
\<close>

theorem C8_validator_checks_lengths_only:
  "(length (payerId (userPurchaseInformation p)) \<noteq> 32
      \<or> length (payeeId (userPurchaseInformation p)) \<noteq> 32
      \<or> length (developerId (userPurchaseInformation p)) \<noteq> 32
      \<or> length (sqlTransactionId p) \<noteq> 32
    \<longrightarrow> ExecuteStandardPTOperationsParamsSchema [] p \<noteq> []
        \<and> executeStandardPTOperations db p w
            = (Inl (ZodError (ExecuteStandardPTOperationsParamsSchema [] p)), w))
   \<and> (ExecuteStandardPTOperationsParamsSchema [] p = [] \<longleftrightarrow>
        length (payeeId (userPurchaseInformation p)) = 32
        \<and> length (payerId (userPurchaseInformation p)) = 32
        \<and> (case payerAccountId (userPurchaseInformation p) of
              None \<Rightarrow> True | Some a \<Rightarrow> length a = 32)
        \<and> (case payeeAccountId (userPurchaseInformation p) of
              None \<Rightarrow> True | Some a \<Rightarrow> length a = 32)
        \<and> length (developerId (userPurchaseInformation p)) = 32
        \<and> 0 \<le> amount (userPurchaseInformation p)
        \<and> (paymentMethod (userPurchaseInformation p) = FedNow
            \<or> paymentMethod (userPurchaseInformation p) = Card)
        \<and> (case promoAmount (promotionInformation p) of None \<Rightarrow> True | Some a \<Rightarrow> 0 \<le> a)
        \<and> length (sqlTransactionId p) = 32)"
proof (intro conjI impI)
  assume bad: "length (payerId (userPurchaseInformation p)) \<noteq> 32
      \<or> length (payeeId (userPurchaseInformation p)) \<noteq> 32
      \<or> length (developerId (userPurchaseInformation p)) \<noteq> 32
      \<or> length (sqlTransactionId p) \<noteq> 32"
  then show invalid: "ExecuteStandardPTOperationsParamsSchema [] p \<noteq> []"
    by (auto simp: bundle_valid_iff Let_def)
  show "executeStandardPTOperations db p w
            = (Inl (ZodError (ExecuteStandardPTOperationsParamsSchema [] p)), w)"
    unfolding executeStandardPTOperations_def
    by (rule andThen_Inl)
      (rule parse_fail [of ExecuteStandardPTOperationsParamsSchema p, OF invalid])
next
  show "ExecuteStandardPTOperationsParamsSchema [] p = [] \<longleftrightarrow>
        length (payeeId (userPurchaseInformation p)) = 32
        \<and> length (payerId (userPurchaseInformation p)) = 32
        \<and> (case payerAccountId (userPurchaseInformation p) of
              None \<Rightarrow> True | Some a \<Rightarrow> length a = 32)
        \<and> (case payeeAccountId (userPurchaseInformation p) of
              None \<Rightarrow> True | Some a \<Rightarrow> length a = 32)
        \<and> length (developerId (userPurchaseInformation p)) = 32
        \<and> 0 \<le> amount (userPurchaseInformation p)
        \<and> (paymentMethod (userPurchaseInformation p) = FedNow
            \<or> paymentMethod (userPurchaseInformation p) = Card)
        \<and> (case promoAmount (promotionInformation p) of None \<Rightarrow> True | Some a \<Rightarrow> 0 \<le> a)
        \<and> length (sqlTransactionId p) = 32"
    by (simp add: bundle_valid_iff Let_def)
qed

theorem C8_validator_checks_lengths_only_witness:
  "length (payerId (userPurchaseInformation invalid_params)) \<noteq> 32
   \<and> ExecuteStandardPTOperationsParamsSchema [] invalid_params \<noteq> []
   \<and> executeStandardPTOperations (createDatabaseOperations genId) invalid_params example_world
       = (Inl (ZodError (ExecuteStandardPTOperationsParamsSchema [] invalid_params)),
          example_world)"
proof -
  have hyp: "length (payerId (userPurchaseInformation invalid_params)) \<noteq> 32"
    by (simp add: invalid_params_def)
  from C8_validator_checks_lengths_only
    [of invalid_params "createDatabaseOperations genId" example_world] hyp
  show ?thesis by simp
qed

subsection \<open>C9: the ledger-entry writer does not refuse a negative amount\<close>

text \<open>
  Claim C9 says that every writer rejects a negative amount, \<open>insertLedgerEntry\<close> in
  particular. The schema of \<open>insertLedgerEntry\<close> is \<open>amount: z.number()\<close>, where the
  schemas of \<open>insertPayment\<close> and \<open>insertPromotionLedgerEntry\<close> have
  \<open>z.number().nonnegative()\<close>. Called with the amount \<open>-1\<close> and an otherwise valid
  input, the writer sends the statement, with \<open>-1\<close> as its \<open>amount\<close>, and returns
  the new id.
\<close>

theorem C9_negative_ledger_amount_is_written:
  "led_amount negative_ledger_entry = - 1
   \<and> insertLedgerEntry_db genId negative_ledger_entry example_world
       = (Inr (replicate 32 CHR ''1''),
          example_world\<lparr>drawn := 32,
            rds_log := [ledgerCall (process_env example_world) negative_ledger_entry
                          (replicate 32 CHR ''1'')]\<rparr>)
   \<and> paramOf (ledgerCall (process_env example_world) negative_ledger_entry
                (replicate 32 CHR ''1'')) ''amount''
       = Some (doubleField (- 1))"
proof -
  have valid: "InsertLedgerEntryParamsSchema [] negative_ledger_entry = []"
    by (simp add: InsertLedgerEntryParamsSchema_def negative_ledger_entry_def z_number_def
        z_string_def)
  show ?thesis
    by (simp add: insertLedgerEntry_db_sent [OF valid example_configured] example_ids Let_def
        paramOf_def ledgerCall_def)
      (simp add: negative_ledger_entry_def)
qed


subsection \<open>C10: \<open>formatDate\<close> formats the current time, whatever its argument\<close>

text \<open>
  Claim C10. \<open>formatDate\<close> ignores its \<open>Date\<close> argument: for every \<open>date\<close> it
  takes a fresh reading of the clock and returns that reading's \<open>toISOString\<close>, cut
  to nineteen characters with the \<open>T\<close> replaced by a space; two calls in the same
  world with different arguments return the same. In \<open>insertPayment\<close> the argument
  is the reading \<open>reads w\<close> and the string written as \<open>datePaid\<close> of a payment
  that is not pending is the rendering of the next reading, \<open>Suc (reads w)\<close>, the
  one \<open>formatDate\<close> takes itself.
\<close>

theorem C10_formatDate_ignores_its_argument:
  "formatDate date w =
     (Inr (replace CHR ''T'' CHR '' '' (slice0 19 (toISOString (date_now w (reads w))))),
      w\<lparr>reads := Suc (reads w)\<rparr>)
   \<and> formatDate date w = formatDate date' w
   \<and> (insertPayment_db genId params w = (Inr ident, w')
        \<and> \<not> (pay_paymentMethod params = FedNow \<and> pay_amount params > 0)
      \<longrightarrow> paramOf (last (rds_log w')) ''datePaid''
            = Some (nullableStringField
                (Some (replace CHR ''T'' CHR '' ''
                   (slice0 19 (toISOString (date_now w (Suc (reads w))))))) False))"
  by (auto simp: formatDate_eq insertPayment_db_Inr_iff wrote_def paramOf_def paymentCall_def
      paymentDatePaid_def)

theorem C10_formatDate_ignores_its_argument_witness:
  "insertPayment_db genId card_payment example_world =
     (Inr (replicate 32 CHR ''1''),
      example_world\<lparr>drawn := 32, reads := 2,
        rds_log := [paymentCall (process_env example_world) card_payment
                      (replicate 32 CHR ''1'') (Some ''2023-12-28 20:49:20'')]\<rparr>)
   \<and> \<not> (pay_paymentMethod card_payment = FedNow \<and> pay_amount card_payment > 0)
   \<and> replace CHR ''T'' CHR '' '' (slice0 19 (toISOString (date_now example_world 0)))
       = ''2023-12-28 20:49:19''
   \<and> paramOf (paymentCall (process_env example_world) card_payment
                (replicate 32 CHR ''1'') (Some ''2023-12-28 20:49:20'')) ''datePaid''
       = Some (nullableStringField (Some ''2023-12-28 20:49:20'') False)"
proof -
  have hyp: "\<not> (pay_paymentMethod card_payment = FedNow \<and> pay_amount card_payment > 0)"
    by (simp add: card_payment_def Card_def FedNow_def)
  have second: "replace CHR ''T'' CHR '' '' (slice0 19 (toISOString (date_now example_world
      (Suc 0)))) = ''2023-12-28 20:49:20''"
    by (simp add: render_example) (simp add: example_world_def pad2_def digit_def)
  have first: "replace CHR ''T'' CHR '' '' (slice0 19 (toISOString (date_now example_world 0)))
       = ''2023-12-28 20:49:19''"
    by (simp add: render_example) (simp add: pad2_def digit_def)
  from C10_formatDate_ignores_its_argument
    [of "date_now example_world 0" example_world "date_now example_world 0" card_payment
      "replicate 32 CHR ''1''"
      "example_world\<lparr>drawn := 32, reads := 2,
        rds_log := [paymentCall (process_env example_world) card_payment
                      (replicate 32 CHR ''1'') (Some ''2023-12-28 20:49:20'')]\<rparr>"]
    card_payment_run hyp
  have "paramOf (paymentCall (process_env example_world) card_payment
                (replicate 32 CHR ''1'') (Some ''2023-12-28 20:49:20'')) ''datePaid''
       = Some (nullableStringField (Some ''2023-12-28 20:49:20'') False)"
    by (simp add: second)
  with card_payment_run hyp first show ?thesis by simp
qed


end
